theory Spec2Isabelle
  imports Complex_Main
begin

section \<open>Numbers and JavaScript truthiness\<close>

text \<open>
  The agents compute on JavaScript numbers. A number that is stored or received is given
  as the rational it is written as. The strategist and the scout are modelled on exact
  rationals: every branch, comparison and formula of the source is kept, rounding is not.
  The diplomat accepts or refuses a counter-offer on a comparison of computed numbers, so
  its arithmetic is modelled in double precision (see below). The clock is a parameter of
  every operation that reads it: the strategist's dates are counted in whole days, the
  other timestamps are plain numbers.
\<close>

type_synonym num = rat

text \<open>\<^verbatim>\<open>a || b\<close> on numbers: the left operand unless it is falsy (0).\<close>

definition num_or :: "num \<Rightarrow> num \<Rightarrow> num" where
  "num_or a b = (if a \<noteq> 0 then a else b)"

section \<open>Strategist agent\<close>

subsection \<open>Data\<close>

record stock_movement =
  mv_type :: string
  mv_quantity :: num
  mv_createdAt :: num

record inventory_item =
  item_id :: string
  item_productId :: string
  currentStock :: num
  reservedStock :: num
  reorderPoint :: num
  avgDailyUsage :: num
  stockMovements :: "stock_movement list"

record consumption =
  daily :: num
  weekly :: num
  trend :: num

record method_prediction =
  mp_daysUntilStockout :: num
  mp_predictedStockoutDate :: int
  mp_confidence :: num
  mp_factors :: "string list"

record combined_prediction =
  cp_daysUntilStockout :: int
  cp_predictedStockoutDate :: int
  cp_confidence :: num
  cp_suggestedReorderDate :: int
  cp_suggestedQuantity :: num
  cp_factors :: "string list"

text \<open>A row of the StockoutPrediction table, as \<^verbatim>\<open>predictStockouts\<close> creates it.\<close>

record stockout_prediction_row =
  row_inventoryItemId :: string
  row_predictedDate :: int
  row_confidence :: num
  row_daysUntil :: int
  row_suggestedAction :: string
  row_suggestedQty :: num

text \<open>An element of the list \<^verbatim>\<open>predictStockouts\<close> returns (interface StockPrediction).\<close>

record stock_prediction =
  sp_productId :: string
  sp_currentStock :: num
  sp_predictedStockoutDate :: int
  sp_daysUntilStockout :: int
  sp_confidence :: num
  sp_suggestedReorderDate :: int
  sp_suggestedQuantity :: num
  sp_factors :: "string list"

datatype urgency = Critical | Warning | Ok

subsection \<open>Consumption analysis\<close>

definition abs_total :: "stock_movement list \<Rightarrow> num" where
  "abs_total ms = foldl (\<lambda>s m. s + \<bar>mv_quantity m\<bar>) 0 ms"

text \<open>
  \<^verbatim>\<open>analyzeConsumption\<close>: the movements arrive newest first; timestamps are in
  milliseconds. \<^verbatim>\<open>slice(0, midpoint)\<close> and \<^verbatim>\<open>slice(midpoint)\<close> are
  \<^const>\<open>take\<close> and \<^const>\<open>drop\<close>.
\<close>

definition analyzeConsumption :: "stock_movement list \<Rightarrow> consumption" where
  "analyzeConsumption movements =
     (let outMovements = filter (\<lambda>m. mv_type m = ''out'') movements in
      if length outMovements = 0 then \<lparr>daily = 0, weekly = 0, trend = 0\<rparr>
      else
        let totalConsumed = abs_total outMovements;
            firstDate = mv_createdAt (last outMovements);
            lastDate = mv_createdAt (hd outMovements);
            daysDiff = max 1 ((lastDate - firstDate) / (1000 * 60 * 60 * 24));
            dailyRate = totalConsumed / daysDiff;
            weeklyRate = dailyRate * 7;
            midpoint = length outMovements div 2;
            recentConsumption = abs_total (take midpoint outMovements);
            olderConsumption = abs_total (drop midpoint outMovements);
            tr = (if olderConsumption > 0
                  then (recentConsumption - olderConsumption) / olderConsumption else 0)
        in \<lparr>daily = dailyRate, weekly = weeklyRate, trend = tr\<rparr>)"

subsection \<open>Stockout predictions\<close>

definition simpleStockoutPrediction ::
  "int \<Rightarrow> inventory_item \<Rightarrow> consumption \<Rightarrow> method_prediction" where
  "simpleStockoutPrediction today item c =
     (let availableStock = currentStock item - reservedStock item;
          daysUntilStockout = (if daily c > 0 then availableStock / daily c else 365)
      in \<lparr>mp_daysUntilStockout = daysUntilStockout,
          mp_predictedStockoutDate = today + \<lfloor>daysUntilStockout\<rfloor>,
          mp_confidence = 7 / 10,
          mp_factors = [''historical_average'']\<rparr>)"

definition trendBasedPrediction ::
  "int \<Rightarrow> inventory_item \<Rightarrow> consumption \<Rightarrow> method_prediction" where
  "trendBasedPrediction today item c =
     (let availableStock = currentStock item - reservedStock item;
          trendAdjustedDaily = daily c * (1 + trend c * (1 / 2));
          daysUntilStockout =
            (if trendAdjustedDaily > 0 then availableStock / trendAdjustedDaily else 365)
      in \<lparr>mp_daysUntilStockout = daysUntilStockout,
          mp_predictedStockoutDate = today + \<lfloor>daysUntilStockout\<rfloor>,
          mp_confidence = 8 / 10,
          mp_factors = [''historical_average'', ''trend_adjustment'']\<rparr>)"

text \<open>\<^verbatim>\<open>[...new Set(xs)]\<close>: duplicates dropped, first occurrences kept in order.\<close>

definition uniq :: "'a list \<Rightarrow> 'a list" where
  "uniq xs = rev (remdups (rev xs))"

definition combinePredicitions :: "int \<Rightarrow> method_prediction list \<Rightarrow> combined_prediction" where
  "combinePredicitions today predictions =
     (let avgDays = foldl (\<lambda>s p. s + mp_daysUntilStockout p) 0 predictions
                      / of_nat (length predictions);
          avgConfidence = foldl (\<lambda>s p. s + mp_confidence p) 0 predictions
                            / of_nat (length predictions)
      in \<lparr>cp_daysUntilStockout = \<lfloor>avgDays\<rfloor>,
          cp_predictedStockoutDate = today + \<lfloor>avgDays\<rfloor>,
          cp_confidence = avgConfidence,
          cp_suggestedReorderDate = today + max 0 (\<lfloor>avgDays\<rfloor> - 7),
          cp_suggestedQuantity = 0,
          cp_factors = uniq (concat (map mp_factors predictions))\<rparr>)"

text \<open>The prediction \<^verbatim>\<open>predictStockouts\<close> computes for one item inside its loop.\<close>

definition itemPrediction :: "int \<Rightarrow> inventory_item \<Rightarrow> combined_prediction" where
  "itemPrediction today item =
     (let consumptionData = analyzeConsumption (stockMovements item);
          simplePredict = simpleStockoutPrediction today item consumptionData;
          trendPredict = trendBasedPrediction today item consumptionData
      in combinePredicitions today [simplePredict, trendPredict])"

definition predictionRow :: "inventory_item \<Rightarrow> combined_prediction \<Rightarrow> stockout_prediction_row" where
  "predictionRow item p =
     \<lparr>row_inventoryItemId = item_id item,
      row_predictedDate = cp_predictedStockoutDate p,
      row_confidence = cp_confidence p,
      row_daysUntil = cp_daysUntilStockout p,
      row_suggestedAction = (if cp_daysUntilStockout p \<le> 3 then ''expedite'' else ''reorder''),
      row_suggestedQty = cp_suggestedQuantity p\<rparr>"

definition predictionEntry :: "inventory_item \<Rightarrow> combined_prediction \<Rightarrow> stock_prediction" where
  "predictionEntry item p =
     \<lparr>sp_productId = item_productId item,
      sp_currentStock = currentStock item,
      sp_predictedStockoutDate = cp_predictedStockoutDate p,
      sp_daysUntilStockout = cp_daysUntilStockout p,
      sp_confidence = cp_confidence p,
      sp_suggestedReorderDate = cp_suggestedReorderDate p,
      sp_suggestedQuantity = cp_suggestedQuantity p,
      sp_factors = cp_factors p\<rparr>"

text \<open>
  The loop of \<^verbatim>\<open>predictStockouts\<close>. The state is the StockoutPrediction table
  (rows in insertion order) and the list \<^verbatim>\<open>predictions\<close>; \<open>thresholdDays\<close> is
  \<^verbatim>\<open>config.agents.strategist.stockoutThresholdDays\<close>.
\<close>

fun predictLoop ::
  "num \<Rightarrow> int \<Rightarrow> inventory_item list \<Rightarrow>
   stockout_prediction_row list \<times> stock_prediction list \<Rightarrow>
   stockout_prediction_row list \<times> stock_prediction list" where
  "predictLoop thresholdDays today [] st = st"
| "predictLoop thresholdDays today (item # items) (table, predictions) =
     (let prediction = itemPrediction today item in
      if of_int (cp_daysUntilStockout prediction) \<le> thresholdDays * 2
      then predictLoop thresholdDays today items
             (table @ [predictionRow item prediction],
              predictions @ [predictionEntry item prediction])
      else predictLoop thresholdDays today items (table, predictions))"

text \<open>
  \<^verbatim>\<open>predictStockouts\<close>: \<open>inventoryItems\<close> is the result of the query, \<open>table\<close> the
  StockoutPrediction table before the call. \<^verbatim>\<open>Array.prototype.sort\<close> with the
  comparator \<^verbatim>\<open>a.daysUntilStockout - b.daysUntilStockout\<close> is a stable ascending sort
  on that key.
\<close>

definition predictStockouts ::
  "num \<Rightarrow> int \<Rightarrow> inventory_item list \<Rightarrow> stockout_prediction_row list \<Rightarrow>
   stock_prediction list \<times> stockout_prediction_row list" where
  "predictStockouts thresholdDays today inventoryItems table =
     (case predictLoop thresholdDays today inventoryItems (table, []) of
        (table', predictions) \<Rightarrow> (sort_key sp_daysUntilStockout predictions, table'))"

text \<open>The default of \<^verbatim>\<open>stockoutThresholdDays\<close> in the configuration schema.\<close>

definition defaultStockoutThresholdDays :: num where
  "defaultStockoutThresholdDays = 14"

subsection \<open>Urgency classification of \<^verbatim>\<open>analyzeInventory\<close>\<close>

text \<open>The \<^verbatim>\<open>if\<close> chain that sets \<^verbatim>\<open>urgency\<close> for one item.\<close>

definition classifyUrgency :: "num \<Rightarrow> num \<Rightarrow> num \<Rightarrow> num \<Rightarrow> urgency" where
  "classifyUrgency thresholdDays daysOfStock curStock reorderPt =
     (if daysOfStock \<le> 3 then Critical
      else if daysOfStock \<le> thresholdDays then Warning
      else if curStock \<le> reorderPt then Warning
      else Ok)"

definition itemDaysOfStock :: "inventory_item \<Rightarrow> num" where
  "itemDaysOfStock item =
     (let usage = num_or (avgDailyUsage item) 1;
          availableStock = currentStock item - reservedStock item
      in availableStock / usage)"

definition itemUrgency :: "num \<Rightarrow> inventory_item \<Rightarrow> urgency" where
  "itemUrgency thresholdDays item =
     classifyUrgency thresholdDays (itemDaysOfStock item) (currentStock item) (reorderPoint item)"

text \<open>The table \<^verbatim>\<open>urgencyOrder\<close> used for sorting: a smaller rank is more severe.\<close>

fun urgencyOrder :: "urgency \<Rightarrow> nat" where
  "urgencyOrder Critical = 0"
| "urgencyOrder Warning = 1"
| "urgencyOrder Ok = 2"

section \<open>Double-precision arithmetic\<close>

text \<open>
  A JavaScript number is an IEEE 754 binary64 value: a finite double, held here as the
  rational it denotes, an infinity, or NaN. A result is the exact result rounded to the
  nearest double, ties to the even significand; magnitudes of \<open>2\<^sup>1\<^sup>0\<^sup>2\<^sup>4\<close> and above
  after rounding are infinite, magnitudes below \<open>2\<^sup>-\<^sup>1\<^sup>0\<^sup>2\<^sup>2\<close> are rounded on the
  subnormal grid of step \<open>2\<^sup>-\<^sup>1\<^sup>0\<^sup>7\<^sup>4\<close>. The sign of zero is not tracked: it shows only
  in a division by zero, which the modelled code does not perform.
\<close>

datatype jsnum = Fin rat | PosInf | NegInf | NaN

text \<open>The number of binary digits of a natural number.\<close>

fun bitLength :: "nat \<Rightarrow> nat" where
  "bitLength n = (if n = 0 then 0 else Suc (bitLength (n div 2)))"

declare bitLength.simps [simp del]

fun numBits :: "Num.num \<Rightarrow> nat" where
  "numBits Num.One = 1"
| "numBits (Num.Bit0 k) = Suc (numBits k)"
| "numBits (Num.Bit1 k) = Suc (numBits k)"

definition pow2 :: "int \<Rightarrow> rat" where
  "pow2 e = (if 0 \<le> e then 2 ^ nat e else 1 / 2 ^ nat (- e))"

text \<open>
  For positive \<open>x\<close>, the integer \<open>k\<close> with \<open>2\<^sup>k \<le> x < 2\<^sup>k\<^sup>+\<^sup>1\<close>: read off the integer
  part of \<open>x\<close> when \<open>x \<ge> 1\<close>, off the reciprocal otherwise.
\<close>

definition floorLog2 :: "rat \<Rightarrow> int" where
  "floorLog2 x =
     (if 1 \<le> x then int (bitLength (nat \<lfloor>x\<rfloor>)) - 1
      else - int (bitLength (nat (\<lceil>1 / x\<rceil> - 1))))"

definition roundHalfEven :: "rat \<Rightarrow> int" where
  "roundHalfEven y =
     (let f = \<lfloor>y\<rfloor>; d = y - of_int f
      in if d < 1 / 2 then f else if 1 / 2 < d then f + 1 else if even f then f else f + 1)"

text \<open>
  The double nearest to a rational: the significand has 53 binary digits, so the unit in
  the last place is \<open>2\<^sup>e\<close> with \<open>e = floorLog2 |x| - 52\<close>, and not below \<open>-1074\<close>.
\<close>

definition toDouble :: "rat \<Rightarrow> jsnum" where
  "toDouble x =
     (if x = 0 then Fin 0
      else
        (let e = max (floorLog2 \<bar>x\<bar> - 52) (- 1074);
             v = of_int (roundHalfEven (\<bar>x\<bar> / pow2 e)) * pow2 e
         in if pow2 1024 \<le> v then (if 0 < x then PosInf else NegInf)
            else Fin (if 0 < x then v else - v)))"

definition jneg :: "jsnum \<Rightarrow> jsnum" where
  "jneg x = (case x of Fin a \<Rightarrow> Fin (- a) | PosInf \<Rightarrow> NegInf | NegInf \<Rightarrow> PosInf | NaN \<Rightarrow> NaN)"

definition jadd :: "jsnum \<Rightarrow> jsnum \<Rightarrow> jsnum" where
  "jadd x y =
     (case (x, y) of
        (Fin a, Fin b) \<Rightarrow> toDouble (a + b)
      | (NaN, _) \<Rightarrow> NaN
      | (_, NaN) \<Rightarrow> NaN
      | (PosInf, NegInf) \<Rightarrow> NaN
      | (NegInf, PosInf) \<Rightarrow> NaN
      | (PosInf, _) \<Rightarrow> PosInf
      | (NegInf, _) \<Rightarrow> NegInf
      | (_, PosInf) \<Rightarrow> PosInf
      | (_, NegInf) \<Rightarrow> NegInf)"

definition jsub :: "jsnum \<Rightarrow> jsnum \<Rightarrow> jsnum" where
  "jsub x y = jadd x (jneg y)"

text \<open>The sign of a number that is not NaN, as \<open>-1\<close>, \<open>0\<close> or \<open>1\<close>.\<close>

definition jsign :: "jsnum \<Rightarrow> rat" where
  "jsign x = (case x of Fin a \<Rightarrow> sgn a | PosInf \<Rightarrow> 1 | NegInf \<Rightarrow> - 1 | NaN \<Rightarrow> 0)"

definition jmul :: "jsnum \<Rightarrow> jsnum \<Rightarrow> jsnum" where
  "jmul x y =
     (case (x, y) of
        (Fin a, Fin b) \<Rightarrow> toDouble (a * b)
      | (NaN, _) \<Rightarrow> NaN
      | (_, NaN) \<Rightarrow> NaN
      | _ \<Rightarrow> (if jsign x * jsign y = 0 then NaN
              else if 0 < jsign x * jsign y then PosInf else NegInf))"

definition jdiv :: "jsnum \<Rightarrow> jsnum \<Rightarrow> jsnum" where
  "jdiv x y =
     (case (x, y) of
        (Fin a, Fin b) \<Rightarrow>
          (if b = 0 then (if a = 0 then NaN else if 0 < a then PosInf else NegInf)
           else toDouble (a / b))
      | (NaN, _) \<Rightarrow> NaN
      | (_, NaN) \<Rightarrow> NaN
      | (Fin a, _) \<Rightarrow> Fin 0
      | (_, Fin b) \<Rightarrow> (if 0 \<le> jsign x * sgn b then x else jneg x)
      | _ \<Rightarrow> NaN)"

text \<open>\<^verbatim>\<open>x < y\<close>, \<^verbatim>\<open>x === y\<close> and \<^verbatim>\<open>x >= y\<close> on numbers: false when either side is NaN.\<close>

definition jless :: "jsnum \<Rightarrow> jsnum \<Rightarrow> bool" where
  "jless x y =
     (case (x, y) of
        (Fin a, Fin b) \<Rightarrow> a < b
      | (NaN, _) \<Rightarrow> False
      | (_, NaN) \<Rightarrow> False
      | (NegInf, NegInf) \<Rightarrow> False
      | (NegInf, _) \<Rightarrow> True
      | (PosInf, _) \<Rightarrow> False
      | (_, PosInf) \<Rightarrow> True
      | (_, NegInf) \<Rightarrow> False)"

definition jeq :: "jsnum \<Rightarrow> jsnum \<Rightarrow> bool" where
  "jeq x y = (case (x, y) of (NaN, _) \<Rightarrow> False | (_, NaN) \<Rightarrow> False | _ \<Rightarrow> x = y)"

definition jge :: "jsnum \<Rightarrow> jsnum \<Rightarrow> bool" where
  "jge x y = (jless y x \<or> jeq x y)"

text \<open>Truthiness of a number: false for 0 and NaN.\<close>

definition jtruthy :: "jsnum \<Rightarrow> bool" where
  "jtruthy x = (case x of Fin a \<Rightarrow> a \<noteq> 0 | NaN \<Rightarrow> False | _ \<Rightarrow> True)"

text \<open>\<^verbatim>\<open>v || d\<close> for an optional stored number \<open>v\<close> read as a double.\<close>

definition js_or :: "rat option \<Rightarrow> jsnum \<Rightarrow> jsnum" where
  "js_or v d =
     (case v of None \<Rightarrow> d | Some x \<Rightarrow> if jtruthy (toDouble x) then toDouble x else d)"

section \<open>The persistent store\<close>

text \<open>
  The tables the scout and diplomat agents read and write, as lists of rows in insertion
  order. Store calls are taken to succeed; the calls that the agents guard with
  \<^verbatim>\<open>try\<close> (network, language model, mail transport) can fail and are inputs of the
  model. Timestamps are numbers supplied by the caller.
\<close>

record supplier =
  sup_id :: string
  sup_name :: string
  sup_contactEmail :: "string option"
  sup_apiEndpoint :: "string option"
  sup_portalUrl :: "string option"
  sup_website :: "string option"
  sup_lastScrapedAt :: "int option"

record supplier_product =
  spr_id :: string
  spr_supplierId :: string
  spr_productId :: string
  spr_productName :: string
  spr_supplierSku :: string
  spr_unitPrice :: num
  spr_inStock :: bool
  spr_stockLevel :: "num option"
  spr_lastUpdated :: int

record scraped_product =
  scr_sku :: string
  scr_name :: string
  scr_price :: num
  scr_currency :: string
  scr_inStock :: bool
  scr_stockLevel :: "num option"

record price_history_row =
  ph_supplierId :: string
  ph_productSku :: string
  ph_price :: num
  ph_currency :: string
  ph_source :: string

record scraping_job =
  job_id :: string
  job_supplierId :: string
  job_status :: string
  job_results :: "scraped_product list option"
  job_startedAt :: int
  job_completedAt :: "int option"

record organization =
  org_id :: string
  org_name :: string

record purchase_order =
  po_organizationId :: string
  po_supplierId :: string
  po_status :: string
  po_totalAmount :: num
  po_createdAt :: int

record offer_product =
  op_sku :: string
  op_name :: string
  op_quantity :: num
  op_currentPrice :: num
  op_targetPrice :: jsnum
  op_competitorPrice :: "num option"

text \<open>
  A counter-offer is the JSON object the classification returns. The source reads a price
  for a SKU at \<^verbatim>\<open>counterOffer.products[sku]\<close> and at \<^verbatim>\<open>counterOffer[sku]\<close>; the
  model keeps both tables, with numbers as prices.
\<close>

record counter_offer =
  co_products :: "string \<rightharpoonup> num"
  co_direct :: "string \<rightharpoonup> num"

record strategy =
  st_approach :: string
  st_initialDiscount :: jsnum
  st_maxRounds :: num
  st_fallbackAction :: string

record negotiation =
  neg_id :: string
  neg_organizationId :: string
  neg_supplierId :: string
  neg_type :: string
  neg_status :: string
  neg_products :: "offer_product list"
  neg_targetSavings :: num
  neg_strategyName :: string
  neg_counterOffers :: "counter_offer list"
  neg_finalTerms :: "counter_offer option"
  neg_savings :: "jsnum option"
  neg_completedAt :: "int option"
  neg_expiresAt :: int
  neg_metadata :: "strategy option"

record negotiation_message =
  msg_negotiationId :: string
  msg_direction :: string
  msg_channel :: string
  msg_subject :: "string option"
  msg_content :: string
  msg_sentAt :: "int option"

record email =
  em_to :: string
  em_subject :: string
  em_body :: string

record store =
  suppliers :: "supplier list"
  supplierProducts :: "supplier_product list"
  priceHistory :: "price_history_row list"
  scrapingJobs :: "scraping_job list"
  organizations :: "organization list"
  purchaseOrders :: "purchase_order list"
  negotiations :: "negotiation list"
  negotiationMessages :: "negotiation_message list"
  sentEmails :: "email list"

text \<open>Truthiness of an optional string: present and not empty.\<close>

definition truthy_str :: "string option \<Rightarrow> bool" where
  "truthy_str v = (case v of None \<Rightarrow> False | Some s \<Rightarrow> s \<noteq> [])"

text \<open>Truthiness of an optional number: present and not 0.\<close>

definition truthy_num :: "num option \<Rightarrow> bool" where
  "truthy_num v = (case v of None \<Rightarrow> False | Some x \<Rightarrow> x \<noteq> 0)"

section \<open>Scout agent\<close>

subsection \<open>Scanning one supplier\<close>

text \<open>
  What the three scraping adapters return for a supplier: the scraped products, or
  \<open>Inl\<close> the message of the exception they throw.
\<close>

record scout_env =
  scrapeViaApi :: "supplier \<Rightarrow> string + scraped_product list"
  scrapeViaPortal :: "supplier \<Rightarrow> string + scraped_product list"
  scrapeViaWebsite :: "supplier \<Rightarrow> string + scraped_product list"

text \<open>
  The writes \<^verbatim>\<open>scanSupplier\<close> issues, in the order it awaits them. An update that
  passes an undefined \<^verbatim>\<open>stockLevel\<close> leaves the stored column as it is.
\<close>

datatype store_write =
    CreateScrapingJob scraping_job
  | CreatePriceHistory price_history_row
  | UpdateSupplierProduct string scraped_product int
  | UpdateSupplierScraped string int
  | CompleteScrapingJob string "scraped_product list" int

fun applyWrite :: "store \<Rightarrow> store_write \<Rightarrow> store" where
  "applyWrite db (CreateScrapingJob j) = db\<lparr>scrapingJobs := scrapingJobs db @ [j]\<rparr>"
| "applyWrite db (CreatePriceHistory r) = db\<lparr>priceHistory := priceHistory db @ [r]\<rparr>"
| "applyWrite db (UpdateSupplierProduct i scraped now) =
     db\<lparr>supplierProducts :=
          map (\<lambda>p. if spr_id p = i
                    then p\<lparr>spr_unitPrice := scr_price scraped,
                           spr_inStock := scr_inStock scraped,
                           spr_stockLevel :=
                             (case scr_stockLevel scraped of
                                Some l \<Rightarrow> Some l
                              | None \<Rightarrow> spr_stockLevel p),
                           spr_lastUpdated := now\<rparr>
                    else p)
              (supplierProducts db)\<rparr>"
| "applyWrite db (UpdateSupplierScraped i now) =
     db\<lparr>suppliers :=
          map (\<lambda>s. if sup_id s = i then s\<lparr>sup_lastScrapedAt := Some now\<rparr> else s)
              (suppliers db)\<rparr>"
| "applyWrite db (CompleteScrapingJob i results now) =
     db\<lparr>scrapingJobs :=
          map (\<lambda>j. if job_id j = i
                    then j\<lparr>job_status := ''completed'', job_results := Some results,
                           job_completedAt := Some now\<rparr>
                    else j)
              (scrapingJobs db)\<rparr>"

text \<open>The PriceHistory row the loop creates for a scraped item.\<close>

definition historyRow :: "string \<Rightarrow> scraped_product \<Rightarrow> price_history_row" where
  "historyRow supplierId scraped =
     \<lparr>ph_supplierId = supplierId,
      ph_productSku = scr_sku scraped,
      ph_price = scr_price scraped,
      ph_currency = scr_currency scraped,
      ph_source = ''scraped''\<rparr>"

text \<open>\<^verbatim>\<open>supplier.supplierProducts\<close>: the products of a supplier, as the query includes them.\<close>

definition existingOf :: "store \<Rightarrow> string \<Rightarrow> supplier_product list" where
  "existingOf db supplierId = filter (\<lambda>sp. spr_supplierId sp = supplierId) (supplierProducts db)"

text \<open>
  The body of the loop over \<^verbatim>\<open>scrapedProducts\<close> for one scraped item.
  \<open>existing\<close> is \<^verbatim>\<open>supplier.supplierProducts\<close>, loaded once before the loop.
\<close>

definition scanItemWrites ::
  "string \<Rightarrow> supplier_product list \<Rightarrow> int \<Rightarrow> scraped_product \<Rightarrow> store_write list" where
  "scanItemWrites supplierId existing now scraped =
     (case find (\<lambda>sp. spr_supplierSku sp = scr_sku scraped) existing of
        None \<Rightarrow> []
      | Some existingProduct \<Rightarrow>
          (if spr_unitPrice existingProduct \<noteq> scr_price scraped
           then [CreatePriceHistory (historyRow supplierId scraped)]
           else [])
          @ [UpdateSupplierProduct (spr_id existingProduct) scraped now])"

definition scanLoopWrites ::
  "string \<Rightarrow> supplier_product list \<Rightarrow> int \<Rightarrow> scraped_product list \<Rightarrow> store_write list" where
  "scanLoopWrites supplierId existing now scrapedProducts =
     concat (map (scanItemWrites supplierId existing now) scrapedProducts)"

text \<open>The adapter chosen from the supplier's configuration; none gives the empty list.\<close>

definition scrapeSupplier :: "scout_env \<Rightarrow> supplier \<Rightarrow> string + scraped_product list" where
  "scrapeSupplier env s =
     (if truthy_str (sup_apiEndpoint s) then scrapeViaApi env s
      else if truthy_str (sup_portalUrl s) then scrapeViaPortal env s
      else if truthy_str (sup_website s) then scrapeViaWebsite env s
      else Inr [])"

definition newJob :: "string \<Rightarrow> string \<Rightarrow> int \<Rightarrow> scraping_job" where
  "newJob jobId supplierId now =
     \<lparr>job_id = jobId, job_supplierId = supplierId, job_status = ''running'',
      job_results = None, job_startedAt = now, job_completedAt = None\<rparr>"

text \<open>
  All writes of one call of \<^verbatim>\<open>scanSupplier\<close>. A supplier that is not found writes
  nothing; a scrape that throws leaves the job record as the only write.
\<close>

definition scanSupplierWrites ::
  "scout_env \<Rightarrow> string \<Rightarrow> int \<Rightarrow> store \<Rightarrow> string \<Rightarrow> store_write list" where
  "scanSupplierWrites env jobId now db supplierId =
     (case find (\<lambda>s. sup_id s = supplierId) (suppliers db) of
        None \<Rightarrow> []
      | Some s \<Rightarrow>
          (case scrapeSupplier env s of
             Inl err \<Rightarrow> [CreateScrapingJob (newJob jobId (sup_id s) now)]
           | Inr scrapedProducts \<Rightarrow>
               [CreateScrapingJob (newJob jobId (sup_id s) now)]
               @ scanLoopWrites (sup_id s) (existingOf db (sup_id s)) now scrapedProducts
               @ [UpdateSupplierScraped (sup_id s) now,
                  CompleteScrapingJob jobId scrapedProducts now]))"

text \<open>\<^verbatim>\<open>scanSupplier\<close>: the result (\<open>Inl\<close> the error message) and the store afterwards.\<close>

definition scanSupplier ::
  "scout_env \<Rightarrow> string \<Rightarrow> int \<Rightarrow> store \<Rightarrow> string \<Rightarrow> (string + scraped_product list) \<times> store" where
  "scanSupplier env jobId now db supplierId =
     (let db' = foldl applyWrite db (scanSupplierWrites env jobId now db supplierId) in
      case find (\<lambda>s. sup_id s = supplierId) (suppliers db) of
        None \<Rightarrow> (Inl ''Supplier not found'', db')
      | Some s \<Rightarrow>
          (case scrapeSupplier env s of
             Inl err \<Rightarrow> (Inl err, db')
           | Inr scrapedProducts \<Rightarrow> (Inr scrapedProducts, db')))"

subsection \<open>Reading a sequence of writes\<close>

text \<open>The PriceHistory rows a sequence of writes creates, in order.\<close>

fun createdRows :: "store_write list \<Rightarrow> price_history_row list" where
  "createdRows [] = []"
| "createdRows (CreatePriceHistory r # ws) = r # createdRows ws"
| "createdRows (w # ws) = createdRows ws"

text \<open>The effect of one write on one SupplierProduct row.\<close>

fun productAfter :: "supplier_product \<Rightarrow> store_write \<Rightarrow> supplier_product" where
  "productAfter p (UpdateSupplierProduct i scraped now) =
     (if spr_id p = i
      then p\<lparr>spr_unitPrice := scr_price scraped, spr_inStock := scr_inStock scraped,
             spr_stockLevel :=
               (case scr_stockLevel scraped of Some l \<Rightarrow> Some l | None \<Rightarrow> spr_stockLevel p),
             spr_lastUpdated := now\<rparr>
      else p)"
| "productAfter p w = p"

text \<open>
  The test of the loop for a scraped item: a stored product with the item's SKU exists
  and \<^verbatim>\<open>existingProduct.unitPrice !== scraped.price\<close>.
\<close>

definition priceChanged :: "supplier_product list \<Rightarrow> scraped_product \<Rightarrow> bool" where
  "priceChanged existing scraped =
     (case find (\<lambda>sp. spr_supplierSku sp = scr_sku scraped) existing of
        None \<Rightarrow> False
      | Some existingProduct \<Rightarrow> spr_unitPrice existingProduct \<noteq> scr_price scraped)"

subsection \<open>Checking the stock of one SKU\<close>

record stock_response =
  rsp_in_stock :: "bool option"
  rsp_quantity :: "num option"

record stock_data =
  sd_inStock :: bool
  sd_stockLevel :: "num option"

text \<open>
  \<^verbatim>\<open>performStockCheck\<close>. \<open>stockApi\<close> is the request to the supplier's stock endpoint:
  \<open>None\<close> when it throws. \<^verbatim>\<open>in_stock ?? quantity > 0\<close> takes \<^verbatim>\<open>in_stock\<close> unless
  it is absent; an absent quantity compares false.
\<close>

definition performStockCheck ::
  "(supplier \<Rightarrow> string \<Rightarrow> stock_response option) \<Rightarrow> supplier \<Rightarrow> string \<Rightarrow> stock_data" where
  "performStockCheck stockApi s sku =
     (let fallback = \<lparr>sd_inStock = True, sd_stockLevel = None\<rparr> in
      if truthy_str (sup_apiEndpoint s) then
        (case stockApi s sku of
           Some r \<Rightarrow>
             \<lparr>sd_inStock =
                (case rsp_in_stock r of
                   Some b \<Rightarrow> b
                 | None \<Rightarrow> (case rsp_quantity r of Some q \<Rightarrow> q > 0 | None \<Rightarrow> False)),
              sd_stockLevel = rsp_quantity r\<rparr>
         | None \<Rightarrow> fallback)
      else fallback)"

text \<open>
  \<^verbatim>\<open>checkStock\<close>. The update passes \<^verbatim>\<open>stockLevel: stockData.stockLevel\<close>; an
  undefined value leaves the stored column as it is. The supplier is the relation included
  with the product; were its row missing, reading \<^verbatim>\<open>supplier.apiEndpoint\<close> would
  throw and the call would return that error.
\<close>

definition checkStock ::
  "(supplier \<Rightarrow> string \<Rightarrow> stock_response option) \<Rightarrow> int \<Rightarrow> store \<Rightarrow> string \<Rightarrow> string \<Rightarrow>
   (string + stock_data) \<times> store" where
  "checkStock stockApi now db supplierId productSku =
     (case find (\<lambda>sp. spr_supplierId sp = supplierId \<and> spr_supplierSku sp = productSku)
             (supplierProducts db) of
        None \<Rightarrow> (Inl ''Supplier product not found'', db)
      | Some supplierProduct \<Rightarrow>
          (case find (\<lambda>s. sup_id s = spr_supplierId supplierProduct) (suppliers db) of
             None \<Rightarrow> (Inl ''Cannot read properties of null'', db)
           | Some s \<Rightarrow>
               (let stockData = performStockCheck stockApi s productSku in
                (Inr stockData,
                 db\<lparr>supplierProducts :=
                      map (\<lambda>p. if spr_id p = spr_id supplierProduct
                                then p\<lparr>spr_inStock := sd_inStock stockData,
                                       spr_stockLevel :=
                                         (case sd_stockLevel stockData of
                                            Some l \<Rightarrow> Some l
                                          | None \<Rightarrow> spr_stockLevel p),
                                       spr_lastUpdated := now\<rparr>
                                else p)
                          (supplierProducts db)\<rparr>))))"

section \<open>Diplomat agent\<close>

subsection \<open>Configuration and environment\<close>

record diplomat_config =
  cfg_maxRounds :: num
  cfg_targetImprovement :: num

text \<open>The defaults of \<^verbatim>\<open>config.agents.diplomat\<close>.\<close>

definition defaultDiplomatConfig :: diplomat_config where
  "defaultDiplomatConfig = \<lparr>cfg_maxRounds = 3, cfg_targetImprovement = 5 / 100\<rparr>"

text \<open>
  The JSON object the classification prompt asks for. \<^verbatim>\<open>accepted\<close> and
  \<^verbatim>\<open>rejected\<close> are read for truthiness only, so an absent field is \<open>False\<close>.
\<close>

record analysis_json =
  js_accepted :: bool
  js_rejected :: bool
  js_counterOffer :: "counter_offer option"
  js_reason :: "string option"

text \<open>
  The outcome of the language-model call in \<^verbatim>\<open>analyzeResponse\<close>: the call throws,
  or it returns a text on which \<^verbatim>\<open>JSON.parse\<close> throws, or a text that parses.
\<close>

datatype classification = LlmThrows string | Unparseable | Parsed analysis_json

text \<open>
  What the outside world answers during one call: the classification, the generated
  emails (\<open>Inl\<close> when the generating call throws) and the mail transport (\<open>Some\<close> the
  message of the exception when sending fails).
\<close>

record diplomat_env =
  env_classification :: classification
  env_negotiationEmail :: "string + email"
  env_counterEmail :: "string + email"
  env_acceptanceEmail :: email
  env_transport :: "email \<Rightarrow> string option"

record analysis =
  an_accepted :: bool
  an_rejected :: bool
  an_counterOffer :: "counter_offer option"
  an_terms :: "counter_offer option"
  an_savings :: "jsnum option"
  an_reason :: "string option"

record evaluation =
  acceptable :: bool
  actualSavings :: jsnum

text \<open>The \<^verbatim>\<open>data\<close> of a successful result of \<^verbatim>\<open>processNegotiationResponse\<close>.\<close>

datatype response_data =
    RespAccepted "counter_offer option" "jsnum option"
  | RespRejected "string option"
  | RespCounterSent nat
  | RespFinalAccepted jsnum
  | RespNoAgreement

record requested_product =
  rq_productId :: string
  rq_quantity :: num
  rq_targetPrice :: "num option"

record initiate_data =
  ini_negotiationId :: string
  ini_strategy :: string
  ini_emailSent :: bool

subsection \<open>Response analysis and evaluation\<close>

text \<open>
  \<^verbatim>\<open>analyzeResponse\<close>, given the outcome of the language-model call. Of the parsed
  object only the four fields the prompt asks for are modelled.
\<close>

definition analyzeResponse :: "classification \<Rightarrow> negotiation \<Rightarrow> string + analysis" where
  "analyzeResponse c negotiation =
     (case c of
        LlmThrows err \<Rightarrow> Inl err
      | Unparseable \<Rightarrow>
          Inr \<lparr>an_accepted = False, an_rejected = False, an_counterOffer = None,
               an_terms = None, an_savings = None, an_reason = None\<rparr>
      | Parsed r \<Rightarrow>
          (case js_counterOffer r of
             Some co \<Rightarrow>
               if js_accepted r then
                 Inr \<lparr>an_accepted = True, an_rejected = js_rejected r,
                      an_counterOffer = Some co, an_terms = Some co,
                      an_savings =
                        Some (foldl (\<lambda>totalSavings product.
                                 jadd totalSavings
                                   (jmul
                                      (jsub (toDouble (op_currentPrice product))
                                         (js_or (co_direct co (op_sku product))
                                            (toDouble (op_currentPrice product))))
                                      (toDouble (op_quantity product))))
                               (Fin 0) (neg_products negotiation)),
                      an_reason = js_reason r\<rparr>
               else
                 Inr \<lparr>an_accepted = False, an_rejected = js_rejected r,
                      an_counterOffer = Some co, an_terms = None, an_savings = None,
                      an_reason = js_reason r\<rparr>
           | None \<Rightarrow>
               Inr \<lparr>an_accepted = js_accepted r, an_rejected = js_rejected r,
                    an_counterOffer = None, an_terms = None, an_savings = None,
                    an_reason = js_reason r\<rparr>))"

text \<open>The price \<^verbatim>\<open>evaluateCounterOffer\<close> binds to \<^verbatim>\<open>counterPrice\<close> for a product.\<close>

definition counterPrice :: "counter_offer \<Rightarrow> offer_product \<Rightarrow> jsnum" where
  "counterPrice co product =
     js_or (co_products co (op_sku product))
       (js_or (co_direct co (op_sku product)) (toDouble (op_currentPrice product)))"

text \<open>The loop of \<^verbatim>\<open>evaluateCounterOffer\<close>: the pair (totalOriginal, totalCounter).\<close>

definition offerTotals :: "counter_offer \<Rightarrow> offer_product list \<Rightarrow> jsnum \<times> jsnum" where
  "offerTotals co originalProducts =
     foldl (\<lambda>(totalOriginal, totalCounter) product.
              (jadd totalOriginal
                 (jmul (toDouble (op_currentPrice product)) (toDouble (op_quantity product))),
               jadd totalCounter
                 (jmul (counterPrice co product) (toDouble (op_quantity product)))))
       (Fin 0, Fin 0) originalProducts"

text \<open>
  \<^verbatim>\<open>savingsPercent\<close> as \<^verbatim>\<open>evaluateCounterOffer\<close> computes it:
  \<^verbatim>\<open>totalOriginal > 0 ? actualSavings / totalOriginal : 0\<close>.
\<close>

definition savingsPercent :: "counter_offer \<Rightarrow> offer_product list \<Rightarrow> jsnum" where
  "savingsPercent co originalProducts =
     (case offerTotals co originalProducts of
        (totalOriginal, totalCounter) \<Rightarrow>
          if jless (Fin 0) totalOriginal
          then jdiv (jsub totalOriginal totalCounter) totalOriginal
          else Fin 0)"

text \<open>\<^verbatim>\<open>targetImprovement * 0.5\<close>, the least accepted value of \<^verbatim>\<open>savingsPercent\<close>.\<close>

definition acceptanceThreshold :: "num \<Rightarrow> jsnum" where
  "acceptanceThreshold targetImprovement = jmul (toDouble targetImprovement) (toDouble (1 / 2))"

definition evaluateCounterOffer ::
  "counter_offer \<Rightarrow> offer_product list \<Rightarrow> num \<Rightarrow> evaluation" where
  "evaluateCounterOffer co originalProducts targetImprovement =
     (case offerTotals co originalProducts of
        (totalOriginal, totalCounter) \<Rightarrow>
          \<lparr>acceptable =
             jge (savingsPercent co originalProducts) (acceptanceThreshold targetImprovement),
           actualSavings = jsub totalOriginal totalCounter\<rparr>)"

subsection \<open>Strategy\<close>

text \<open>
  \<^verbatim>\<open>determineStrategy\<close>, without the talking points (texts for the prompt).
  \<open>historicalVolume\<close> is absent when the context is rebuilt from a stored negotiation.
\<close>

definition determineStrategy ::
  "diplomat_config \<Rightarrow> offer_product list \<Rightarrow> jsnum option \<Rightarrow> strategy" where
  "determineStrategy cfg products historicalVolume =
     (if (case historicalVolume of Some v \<Rightarrow> jtruthy v \<and> jless (Fin 50000) v | None \<Rightarrow> False)
      then \<lparr>st_approach = ''volume_leverage'',
            st_initialDiscount = jadd (toDouble (cfg_targetImprovement cfg)) (toDouble (2 / 100)),
            st_maxRounds = cfg_maxRounds cfg, st_fallbackAction = ''escalate''\<rparr>
      else if list_ex (\<lambda>p. (case op_competitorPrice p of
                                Some c \<Rightarrow> jtruthy (toDouble c) | None \<Rightarrow> False)) products
      then \<lparr>st_approach = ''competitive'',
            st_initialDiscount = toDouble (cfg_targetImprovement cfg),
            st_maxRounds = cfg_maxRounds cfg, st_fallbackAction = ''walk_away''\<rparr>
      else \<lparr>st_approach = ''collaborative'',
            st_initialDiscount = toDouble (cfg_targetImprovement cfg),
            st_maxRounds = cfg_maxRounds cfg, st_fallbackAction = ''accept''\<rparr>)"

subsection \<open>Store operations on negotiations\<close>

definition updateNegotiation :: "string \<Rightarrow> (negotiation \<Rightarrow> negotiation) \<Rightarrow> store \<Rightarrow> store" where
  "updateNegotiation i f db =
     db\<lparr>negotiations := map (\<lambda>n. if neg_id n = i then f n else n) (negotiations db)\<rparr>"

definition createMessage :: "negotiation_message \<Rightarrow> store \<Rightarrow> store" where
  "createMessage m db = db\<lparr>negotiationMessages := negotiationMessages db @ [m]\<rparr>"

text \<open>\<^verbatim>\<open>sendEmail\<close>: the exception of the transport, or the store with the mail sent.\<close>

definition sendEmail :: "diplomat_env \<Rightarrow> email \<Rightarrow> store \<Rightarrow> string + store" where
  "sendEmail env e db =
     (case env_transport env e of
        Some err \<Rightarrow> Inl err
      | None \<Rightarrow> Inr (db\<lparr>sentEmails := sentEmails db @ [e]\<rparr>))"

definition inboundMessage :: "string \<Rightarrow> string \<Rightarrow> negotiation_message" where
  "inboundMessage negotiationId content =
     \<lparr>msg_negotiationId = negotiationId, msg_direction = ''inbound'',
      msg_channel = ''email'', msg_subject = None, msg_content = content,
      msg_sentAt = None\<rparr>"

definition outboundMessage :: "string \<Rightarrow> email \<Rightarrow> int \<Rightarrow> negotiation_message" where
  "outboundMessage negotiationId e now =
     \<lparr>msg_negotiationId = negotiationId, msg_direction = ''outbound'',
      msg_channel = ''email'', msg_subject = Some (em_subject e), msg_content = em_body e,
      msg_sentAt = Some now\<rparr>"

text \<open>The messages \<^verbatim>\<open>findUnique\<close> includes with a negotiation.\<close>

definition messagesOf :: "store \<Rightarrow> string \<Rightarrow> negotiation_message list" where
  "messagesOf db negotiationId =
     filter (\<lambda>m. msg_negotiationId m = negotiationId) (negotiationMessages db)"

text \<open>
  \<^verbatim>\<open>negotiation.messages.filter(m => m.direction === 'outbound').length + 1\<close>
\<close>

definition roundNumber :: "negotiation_message list \<Rightarrow> nat" where
  "roundNumber messages = length (filter (\<lambda>m. msg_direction m = ''outbound'') messages) + 1"

subsection \<open>Initiating a negotiation\<close>

text \<open>One entry of \<^verbatim>\<open>payload.products.map(...)\<close> in \<^verbatim>\<open>initiateNegotiation\<close>.\<close>

definition buildOfferProduct ::
  "diplomat_config \<Rightarrow> supplier_product list \<Rightarrow> requested_product \<Rightarrow> offer_product" where
  "buildOfferProduct cfg supplierProds p =
     (let supplierProduct = find (\<lambda>sp. spr_productId sp = rq_productId p) supplierProds;
          unitPrice = (case supplierProduct of Some sp \<Rightarrow> spr_unitPrice sp | None \<Rightarrow> 0)
      in \<lparr>op_sku = (case supplierProduct of Some sp \<Rightarrow> spr_supplierSku sp | None \<Rightarrow> []),
          op_name = (case supplierProduct of Some sp \<Rightarrow> spr_productName sp | None \<Rightarrow> []),
          op_quantity = rq_quantity p,
          op_currentPrice = unitPrice,
          op_targetPrice =
            js_or (rq_targetPrice p)
              (jmul (toDouble unitPrice) (jsub (Fin 1) (toDouble (cfg_targetImprovement cfg)))),
          op_competitorPrice = None\<rparr>)"

text \<open>
  The sum over the at most twelve latest purchase orders of the organization with the
  supplier that are received, shipped or confirmed.
\<close>

definition historicalVolumeOf :: "store \<Rightarrow> string \<Rightarrow> string \<Rightarrow> jsnum" where
  "historicalVolumeOf db organizationId supplierId =
     (let historicalOrders =
            take 12 (rev (sort_key po_createdAt
              (filter (\<lambda>po. po_organizationId po = organizationId \<and> po_supplierId po = supplierId
                           \<and> po_status po \<in> set [''received'', ''shipped'', ''confirmed''])
                 (purchaseOrders db))))
      in foldl (\<lambda>total po. jadd total (toDouble (po_totalAmount po))) (Fin 0) historicalOrders)"

definition newNegotiation ::
  "diplomat_config \<Rightarrow> string \<Rightarrow> int \<Rightarrow> string \<Rightarrow> string \<Rightarrow> offer_product list \<Rightarrow> strategy \<Rightarrow>
   negotiation" where
  "newNegotiation cfg newId now organizationId supplierId products strat =
     \<lparr>neg_id = newId,
      neg_organizationId = organizationId,
      neg_supplierId = supplierId,
      neg_type = ''price'',
      neg_status = ''in_progress'',
      neg_products = products,
      neg_targetSavings = cfg_targetImprovement cfg,
      neg_strategyName = st_approach strat,
      neg_counterOffers = [],
      neg_finalTerms = None,
      neg_savings = None,
      neg_completedAt = None,
      neg_expiresAt = now + 7 * 24 * 60 * 60 * 1000,
      neg_metadata = Some strat\<rparr>"

text \<open>
  \<^verbatim>\<open>initiateNegotiation\<close>. \<open>newId\<close> is the id the store gives the new row, \<open>now\<close>
  the clock in milliseconds. The record is created before the mail is sent, so a failing
  transport leaves the new negotiation without a message.
\<close>

definition initiateNegotiation ::
  "diplomat_config \<Rightarrow> diplomat_env \<Rightarrow> string \<Rightarrow> int \<Rightarrow> store \<Rightarrow>
   string \<Rightarrow> string \<Rightarrow> requested_product list \<Rightarrow> (string + initiate_data) \<times> store" where
  "initiateNegotiation cfg env newId now db organizationId supplierId requested =
     (case (find (\<lambda>g. org_id g = organizationId) (organizations db),
            find (\<lambda>s. sup_id s = supplierId) (suppliers db)) of
        (Some org, Some supp) \<Rightarrow>
          if \<not> truthy_str (sup_contactEmail supp)
          then (Inl ''Supplier has no contact email'', db)
          else
            (let products =
                   map (buildOfferProduct cfg
                          (filter (\<lambda>sp. spr_supplierId sp = sup_id supp) (supplierProducts db)))
                     requested;
                 historicalVolume = historicalVolumeOf db organizationId supplierId;
                 strat = determineStrategy cfg products (Some historicalVolume)
             in case env_negotiationEmail env of
                  Inl err \<Rightarrow> (Inl err, db)
                | Inr e \<Rightarrow>
                    (let n = newNegotiation cfg newId now organizationId supplierId products strat;
                         db1 = db\<lparr>negotiations := negotiations db @ [n]\<rparr>
                     in case sendEmail env e db1 of
                          Inl err \<Rightarrow> (Inl err, db1)
                        | Inr db2 \<Rightarrow>
                            (Inr \<lparr>ini_negotiationId = neg_id n,
                                  ini_strategy = st_approach strat,
                                  ini_emailSent = True\<rparr>,
                             createMessage (outboundMessage (neg_id n) e now) db2)))
      | _ \<Rightarrow> (Inl ''Organization or supplier not found'', db))"

subsection \<open>Processing a reply\<close>

text \<open>
  The branch for a counter-offer while \<^verbatim>\<open>round < this.maxRounds\<close>. \<open>db\<close> is the
  store after the inbound message was recorded.
\<close>

definition respondToCounter ::
  "diplomat_config \<Rightarrow> diplomat_env \<Rightarrow> int \<Rightarrow> store \<Rightarrow> negotiation \<Rightarrow> counter_offer \<Rightarrow> nat \<Rightarrow>
   (string + response_data) \<times> store" where
  "respondToCounter cfg env now db negotiation co roundNo =
     (let counterOfferAnalysis =
            evaluateCounterOffer co (neg_products negotiation) (cfg_targetImprovement cfg)
      in if acceptable counterOfferAnalysis then
           (let db1 = updateNegotiation (neg_id negotiation)
                        (\<lambda>n. n\<lparr>neg_status := ''accepted'',
                                neg_finalTerms := Some co,
                                neg_savings := Some (actualSavings counterOfferAnalysis),
                                neg_completedAt := Some now,
                                neg_counterOffers := neg_counterOffers negotiation @ [co]\<rparr>) db
            in case sendEmail env (env_acceptanceEmail env) db1 of
                 Inl err \<Rightarrow> (Inl err, db1)
               | Inr db2 \<Rightarrow>
                   (Inr (RespAccepted (Some co) (Some (actualSavings counterOfferAnalysis))), db2))
         else
           (case env_counterEmail env of
              Inl err \<Rightarrow> (Inl err, db)
            | Inr responseEmail \<Rightarrow>
                (case sendEmail env responseEmail db of
                   Inl err \<Rightarrow> (Inl err, db)
                 | Inr db1 \<Rightarrow>
                     (Inr (RespCounterSent (roundNo + 1)),
                      updateNegotiation (neg_id negotiation)
                        (\<lambda>n. n\<lparr>neg_counterOffers := neg_counterOffers negotiation @ [co]\<rparr>)
                        (createMessage
                           (outboundMessage (neg_id negotiation) responseEmail now) db1)))))"

text \<open>
  The last \<^verbatim>\<open>else\<close> branch (commented "Max rounds reached - make final decision"
  in the source). It is taken whenever the reply is neither an acceptance nor a rejection
  and the condition \<^verbatim>\<open>analysis.counterOffer && round < this.maxRounds\<close> is false.
\<close>

definition finalDecisionStep ::
  "diplomat_config \<Rightarrow> int \<Rightarrow> store \<Rightarrow> negotiation \<Rightarrow> counter_offer option \<Rightarrow>
   (string + response_data) \<times> store" where
  "finalDecisionStep cfg now db negotiation counterOffer =
     (let finalDecision =
            (case counterOffer of
               Some co \<Rightarrow>
                 evaluateCounterOffer co (neg_products negotiation) (cfg_targetImprovement cfg)
             | None \<Rightarrow> \<lparr>acceptable = False, actualSavings = Fin 0\<rparr>)
      in if acceptable finalDecision then
           (Inr (RespFinalAccepted (actualSavings finalDecision)),
            updateNegotiation (neg_id negotiation)
              (\<lambda>n. n\<lparr>neg_status := ''accepted'',
                      neg_finalTerms :=
                        (case counterOffer of Some co \<Rightarrow> Some co | None \<Rightarrow> neg_finalTerms n),
                      neg_savings := Some (actualSavings finalDecision),
                      neg_completedAt := Some now\<rparr>) db)
         else
           (Inr RespNoAgreement,
            updateNegotiation (neg_id negotiation)
              (\<lambda>n. n\<lparr>neg_status := ''expired'', neg_completedAt := Some now\<rparr>) db))"

text \<open>
  \<^verbatim>\<open>processNegotiationResponse\<close>. The messages are read before the inbound message is
  recorded. An update that passes an undefined value leaves the stored column as it is.
\<close>

definition processNegotiationResponse ::
  "diplomat_config \<Rightarrow> diplomat_env \<Rightarrow> int \<Rightarrow> store \<Rightarrow> string \<Rightarrow> string \<Rightarrow>
   (string + response_data) \<times> store" where
  "processNegotiationResponse cfg env now db negotiationId responseContent =
     (case find (\<lambda>n. neg_id n = negotiationId) (negotiations db) of
        None \<Rightarrow> (Inl ''Negotiation not found'', db)
      | Some negotiation \<Rightarrow>
          (let messages = messagesOf db (neg_id negotiation);
               db1 = createMessage (inboundMessage (neg_id negotiation) responseContent) db
           in case analyzeResponse (env_classification env) negotiation of
                Inl err \<Rightarrow> (Inl err, db1)
              | Inr a \<Rightarrow>
                  (let roundNo = roundNumber messages in
                   if an_accepted a then
                     (Inr (RespAccepted (an_terms a) (an_savings a)),
                      updateNegotiation (neg_id negotiation)
                        (\<lambda>n. n\<lparr>neg_status := ''accepted'',
                                neg_finalTerms :=
                                  (case an_terms a of Some t \<Rightarrow> Some t | None \<Rightarrow> neg_finalTerms n),
                                neg_savings :=
                                  (case an_savings a of Some v \<Rightarrow> Some v | None \<Rightarrow> neg_savings n),
                                neg_completedAt := Some now\<rparr>) db1)
                   else if an_rejected a then
                     (Inr (RespRejected (an_reason a)),
                      updateNegotiation (neg_id negotiation)
                        (\<lambda>n. n\<lparr>neg_status := ''rejected'', neg_completedAt := Some now\<rparr>) db1)
                   else
                     (case an_counterOffer a of
                        Some co \<Rightarrow>
                          if of_nat roundNo < cfg_maxRounds cfg
                          then respondToCounter cfg env now db1 negotiation co roundNo
                          else finalDecisionStep cfg now db1 negotiation (Some co)
                      | None \<Rightarrow> finalDecisionStep cfg now db1 negotiation None))))"

subsection \<open>Other writers of the negotiation status\<close>

text \<open>
  The handler of \<^verbatim>\<open>POST /api/negotiations/:id/messages\<close>: it records an outbound
  follow-up and sets the status to \<^verbatim>\<open>in_progress\<close>.
\<close>

definition sendFollowUp :: "int \<Rightarrow> store \<Rightarrow> string \<Rightarrow> string \<Rightarrow> store" where
  "sendFollowUp now db negotiationId message =
     updateNegotiation negotiationId (\<lambda>n. n\<lparr>neg_status := ''in_progress''\<rparr>)
       (createMessage
          \<lparr>msg_negotiationId = negotiationId, msg_direction = ''outbound'',
           msg_channel = ''email'', msg_subject = Some ''Follow-up'', msg_content = message,
           msg_sentAt = Some now\<rparr> db)"

text \<open>The start-up pass of the diplomat runner over the negotiations in progress.\<close>

definition expireStale :: "int \<Rightarrow> store \<Rightarrow> store" where
  "expireStale now db =
     db\<lparr>negotiations :=
          map (\<lambda>n. if neg_status n = ''in_progress'' \<and> neg_expiresAt n < now
                    then n\<lparr>neg_status := ''expired'', neg_completedAt := Some now\<rparr>
                    else n)
              (negotiations db)\<rparr>"

subsection \<open>Reading the negotiation status\<close>

text \<open>The status stored for a negotiation id, if the negotiation exists.\<close>

definition statusOf :: "store \<Rightarrow> string \<Rightarrow> string option" where
  "statusOf db negotiationId =
     map_option neg_status (find (\<lambda>n. neg_id n = negotiationId) (negotiations db))"

text \<open>The three final states of a negotiation.\<close>

definition terminalStatus :: "string \<Rightarrow> bool" where
  "terminalStatus st = (st \<in> set [''accepted'', ''rejected'', ''expired''])"

text \<open>
  How one row of the Negotiation table may differ before and after a call: the id is
  kept, and the status is either kept or one of the final states.
\<close>

definition statusStep :: "negotiation \<Rightarrow> negotiation \<Rightarrow> bool" where
  "statusStep n n' =
     (neg_id n' = neg_id n \<and> (neg_status n' = neg_status n \<or> terminalStatus (neg_status n')))"

subsection \<open>The acceptance test in the words of the specification\<close>

text \<open>
  The specification states the test of a counter-offer as
  \<open>actualSavings = \<Sum>(current - counter) \<times> qty\<close> and
  \<open>savings / originalTotal \<ge> targetImprovement \<times> 0.5\<close>. These definitions follow those
  words, in exact arithmetic; they serve to say what a counter-offer saves before any
  rounding.
\<close>

definition opt_or :: "num option \<Rightarrow> num \<Rightarrow> num" where
  "opt_or v d = (case v of None \<Rightarrow> d | Some x \<Rightarrow> num_or x d)"

definition spec_counterPrice :: "counter_offer \<Rightarrow> offer_product \<Rightarrow> num" where
  "spec_counterPrice co p =
     opt_or (co_products co (op_sku p)) (opt_or (co_direct co (op_sku p)) (op_currentPrice p))"

definition spec_originalTotal :: "offer_product list \<Rightarrow> num" where
  "spec_originalTotal ps = (\<Sum>p\<leftarrow>ps. op_currentPrice p * op_quantity p)"

definition spec_actualSavings :: "counter_offer \<Rightarrow> offer_product list \<Rightarrow> num" where
  "spec_actualSavings co ps =
     (\<Sum>p\<leftarrow>ps. (op_currentPrice p - spec_counterPrice co p) * op_quantity p)"

section \<open>Example data\<close>

text \<open>
  A supplier with a public website only, one of its products stored at price 10 and out
  of stock, and two scrapes of that product: at price 12 and at the stored price.
\<close>

definition exampleSupplier :: supplier where
  "exampleSupplier =
     \<lparr>sup_id = ''supp-1'', sup_name = ''Test Supplier'',
      sup_contactEmail = Some ''sales@supplier.test'', sup_apiEndpoint = None,
      sup_portalUrl = None, sup_website = Some ''https://example.com'',
      sup_lastScrapedAt = None\<rparr>"

definition exampleProduct :: supplier_product where
  "exampleProduct =
     \<lparr>spr_id = ''sp-1'', spr_supplierId = ''supp-1'', spr_productId = ''prod-1'',
      spr_productName = ''Widget'', spr_supplierSku = ''SKU-001'', spr_unitPrice = 10,
      spr_inStock = False, spr_stockLevel = Some 0, spr_lastUpdated = 0\<rparr>"

definition exampleStore :: store where
  "exampleStore =
     \<lparr>suppliers = [exampleSupplier], supplierProducts = [exampleProduct],
      priceHistory = [], scrapingJobs = [],
      organizations = [\<lparr>org_id = ''org-1'', org_name = ''Test Org''\<rparr>],
      purchaseOrders = [], negotiations = [], negotiationMessages = [], sentEmails = []\<rparr>"

definition scrapedAt :: "num \<Rightarrow> scraped_product" where
  "scrapedAt price =
     \<lparr>scr_sku = ''SKU-001'', scr_name = ''Widget'', scr_price = price,
      scr_currency = ''USD'', scr_inStock = True, scr_stockLevel = None\<rparr>"

definition websiteEnv :: "scraped_product list \<Rightarrow> scout_env" where
  "websiteEnv found =
     \<lparr>scrapeViaApi = (\<lambda>s. Inl ''no api''), scrapeViaPortal = (\<lambda>s. Inl ''no portal''),
      scrapeViaWebsite = (\<lambda>s. Inr found)\<rparr>"

text \<open>
  A negotiation with the example supplier over 100 units at the current price 10, stored
  with a given status and a given number of outbound messages; an environment in which
  every generated email is the same and the mail transport works; and replies classified
  as a counter-offer at a given unit price or as a rejection.
\<close>

definition exampleEmail :: email where
  "exampleEmail = \<lparr>em_to = ''sales@supplier.test'', em_subject = ''Re: Pricing Discussion'',
                    em_body = ''We would like to discuss pricing.''\<rparr>"

definition exampleNegotiation :: "string \<Rightarrow> negotiation" where
  "exampleNegotiation st =
     \<lparr>neg_id = ''neg-1'', neg_organizationId = ''org-1'', neg_supplierId = ''supp-1'',
      neg_type = ''price'', neg_status = st,
      neg_products = [\<lparr>op_sku = ''SKU-001'', op_name = ''Widget'', op_quantity = 100,
                       op_currentPrice = 10, op_targetPrice = Fin (19 / 2),
                       op_competitorPrice = None\<rparr>],
      neg_targetSavings = 5 / 100, neg_strategyName = ''collaborative'',
      neg_counterOffers = [], neg_finalTerms = None, neg_savings = None,
      neg_completedAt = None, neg_expiresAt = 604800000, neg_metadata = None\<rparr>"

definition negotiationStore :: "string \<Rightarrow> nat \<Rightarrow> store" where
  "negotiationStore st k =
     exampleStore\<lparr>negotiations := [exampleNegotiation st],
                  negotiationMessages := replicate k (outboundMessage ''neg-1'' exampleEmail 0)\<rparr>"

definition replyEnv :: "classification \<Rightarrow> diplomat_env" where
  "replyEnv c =
     \<lparr>env_classification = c, env_negotiationEmail = Inr exampleEmail,
      env_counterEmail = Inr exampleEmail, env_acceptanceEmail = exampleEmail,
      env_transport = (\<lambda>e. None)\<rparr>"

definition counterAt :: "num \<Rightarrow> counter_offer" where
  "counterAt price = \<lparr>co_products = Map.empty, co_direct = [''SKU-001'' \<mapsto> price]\<rparr>"

definition counterReply :: "num \<Rightarrow> analysis_json" where
  "counterReply price =
     \<lparr>js_accepted = False, js_rejected = False, js_counterOffer = Some (counterAt price),
      js_reason = None\<rparr>"

text \<open>
  A second negotiation, over one unit at the current price 2.80, with the initial email
  stored; and an environment whose mail transport refuses every message.
\<close>

definition boundaryNegotiation :: negotiation where
  "boundaryNegotiation =
     \<lparr>neg_id = ''neg-2'', neg_organizationId = ''org-1'', neg_supplierId = ''supp-1'',
      neg_type = ''price'', neg_status = ''in_progress'',
      neg_products = [\<lparr>op_sku = ''SKU-001'', op_name = ''Widget'', op_quantity = 1,
                       op_currentPrice = 28 / 10, op_targetPrice = Fin (21 / 8),
                       op_competitorPrice = None\<rparr>],
      neg_targetSavings = 5 / 100, neg_strategyName = ''collaborative'',
      neg_counterOffers = [], neg_finalTerms = None, neg_savings = None,
      neg_completedAt = None, neg_expiresAt = 604800000, neg_metadata = None\<rparr>"

definition boundaryStore :: store where
  "boundaryStore =
     exampleStore\<lparr>negotiations := [boundaryNegotiation],
                  negotiationMessages := [outboundMessage ''neg-2'' exampleEmail 0]\<rparr>"

definition refusingEnv :: "classification \<Rightarrow> diplomat_env" where
  "refusingEnv c = (replyEnv c)\<lparr>env_transport := (\<lambda>e. Some ''connect ECONNREFUSED'')\<rparr>"

definition rejectReply :: analysis_json where
  "rejectReply = \<lparr>js_accepted = False, js_rejected = True, js_counterOffer = None,
                   js_reason = Some ''no discount possible''\<rparr>"

section \<open>Properties of the strategist agent\<close>

subsection \<open>Simple stockout projection\<close>

text \<open>
  Claim C5, as the code has it. The simple average-rate projection returns the available
  stock (current minus reserved) divided by the daily rate when the rate is positive, and
  the fixed value 365 otherwise: with stock 100 and rate 10 it returns 10, with stock 100
  and rate 0 it returns 365.
\<close>

theorem simpleStockoutPrediction_days:
  "mp_daysUntilStockout (simpleStockoutPrediction today item c) =
     (if daily c > 0 then (currentStock item - reservedStock item) / daily c else 365)
   \<and> mp_daysUntilStockout
         (simpleStockoutPrediction today
            \<lparr>item_id = i, item_productId = p, currentStock = 100, reservedStock = 0,
             reorderPoint = r, avgDailyUsage = u, stockMovements = ms\<rparr>
            \<lparr>daily = 10, weekly = 70, trend = 0\<rparr>) = 10
   \<and> mp_daysUntilStockout
         (simpleStockoutPrediction today
            \<lparr>item_id = i, item_productId = p, currentStock = 100, reservedStock = 0,
             reorderPoint = r, avgDailyUsage = u, stockMovements = ms\<rparr>
            \<lparr>daily = 0, weekly = 0, trend = 0\<rparr>) = 365"
  by (simp add: simpleStockoutPrediction_def Let_def)

text \<open>
  Claim C5 as stated fails: for an item with stock 100 and no outbound movement (daily
  rate 0) the projection is the finite number 365, not an infinite value.
\<close>

theorem simpleStockoutPrediction_zero_rate_counterexample:
  "daily (analyzeConsumption []) = 0
   \<and> mp_daysUntilStockout
       (simpleStockoutPrediction 0
          \<lparr>item_id = ''i1'', item_productId = ''p1'', currentStock = 100, reservedStock = 0,
           reorderPoint = 0, avgDailyUsage = 0, stockMovements = []\<rparr>
          (analyzeConsumption [])) = 365"
  by (simp add: simpleStockoutPrediction_def analyzeConsumption_def Let_def)

subsection \<open>Urgency classification\<close>

text \<open>
  Claim C8. For a fixed threshold and a fixed relation between current stock and reorder
  point, fewer days of stock never give a less severe urgency: the rank in
  \<^verbatim>\<open>urgencyOrder\<close> (0 critical, 1 warning, 2 ok) does not grow as the days of stock
  shrink. The classification is critical when the days of stock are at most 3, warning
  when they are at most the threshold or the current stock is at most the reorder point,
  and ok otherwise, the first match winning.
\<close>

theorem classifyUrgency_monotonic:
  assumes "d1 \<le> d2" and "(cs1 \<le> rp1) = (cs2 \<le> rp2)"
  shows "urgencyOrder (classifyUrgency T d1 cs1 rp1) \<le> urgencyOrder (classifyUrgency T d2 cs2 rp2)
       \<and> (classifyUrgency T d1 cs1 rp1 = Critical \<longleftrightarrow> d1 \<le> 3)
       \<and> (classifyUrgency T d1 cs1 rp1 = Warning \<longleftrightarrow> \<not> d1 \<le> 3 \<and> (d1 \<le> T \<or> cs1 \<le> rp1))
       \<and> (classifyUrgency T d1 cs1 rp1 = Ok \<longleftrightarrow> \<not> d1 \<le> 3 \<and> \<not> d1 \<le> T \<and> \<not> cs1 \<le> rp1)"
  using assms by (auto simp: classifyUrgency_def)

text \<open>At the default threshold 14: two days of stock are critical, twenty are ok.\<close>

theorem classifyUrgency_monotonic_witness:
  "(2::num) \<le> 20 \<and> ((50::num) \<le> 10) = ((60::num) \<le> 10)
   \<and> urgencyOrder (classifyUrgency 14 2 50 10) \<le> urgencyOrder (classifyUrgency 14 20 60 10)
   \<and> classifyUrgency 14 2 50 10 = Critical \<and> classifyUrgency 14 20 60 10 = Ok"
  using classifyUrgency_monotonic [of 2 20 50 10 60 10 14]
  by (simp add: classifyUrgency_def)

subsection \<open>Stockout predictions\<close>

lemma predictLoop_filter:
  "predictLoop T today items (table, predictions) =
     (table @ map (\<lambda>i. predictionRow i (itemPrediction today i))
                (filter (\<lambda>i. of_int (cp_daysUntilStockout (itemPrediction today i)) \<le> T * 2) items),
      predictions @ map (\<lambda>i. predictionEntry i (itemPrediction today i))
                (filter (\<lambda>i. of_int (cp_daysUntilStockout (itemPrediction today i)) \<le> T * 2) items))"
  by (induction items arbitrary: table predictions) (simp_all add: Let_def)

lemma predictionEntry_days [simp]:
  "sp_daysUntilStockout (predictionEntry i p) = cp_daysUntilStockout p"
  by (simp add: predictionEntry_def)

text \<open>
  Claim C10. \<^verbatim>\<open>predictStockouts\<close> stores a row and returns an entry exactly for the
  items whose combined days until stockout are at most twice the threshold (28 at the
  default 14), in item order in the table; the other items appear in neither. The
  returned list is sorted ascending by days until stockout.
\<close>

theorem predictStockouts_threshold:
  assumes "predictStockouts T today items table = (preds, table')"
  shows "preds = sort_key sp_daysUntilStockout
                   (map (\<lambda>i. predictionEntry i (itemPrediction today i))
                      (filter (\<lambda>i. of_int (cp_daysUntilStockout (itemPrediction today i)) \<le> T * 2) items))
       \<and> table' = table @ map (\<lambda>i. predictionRow i (itemPrediction today i))
                      (filter (\<lambda>i. of_int (cp_daysUntilStockout (itemPrediction today i)) \<le> T * 2) items)
       \<and> sorted (map sp_daysUntilStockout preds)
       \<and> (\<forall>p \<in> set preds. of_int (sp_daysUntilStockout p) \<le> T * 2)
       \<and> (\<forall>r \<in> set table' - set table. of_int (row_daysUntil r) \<le> T * 2)
       \<and> (T = defaultStockoutThresholdDays \<longrightarrow> (\<forall>p \<in> set preds. sp_daysUntilStockout p \<le> 28))"
proof -
  let ?keep = "filter (\<lambda>i. of_int (cp_daysUntilStockout (itemPrediction today i)) \<le> T * 2) items"
  from assms have p: "preds = sort_key sp_daysUntilStockout
                   (map (\<lambda>i. predictionEntry i (itemPrediction today i)) ?keep)"
    and t: "table' = table @ map (\<lambda>i. predictionRow i (itemPrediction today i)) ?keep"
    by (simp_all add: predictStockouts_def predictLoop_filter)
  have s: "sorted (map sp_daysUntilStockout preds)"
    unfolding p by simp
  have b: "\<forall>p \<in> set preds. of_int (sp_daysUntilStockout p) \<le> T * 2"
    unfolding p by auto
  have r: "\<forall>r \<in> set table' - set table. of_int (row_daysUntil r) \<le> T * 2"
    unfolding t by (auto simp: predictionRow_def)
  have d: "T = defaultStockoutThresholdDays \<longrightarrow> (\<forall>p \<in> set preds. sp_daysUntilStockout p \<le> 28)"
  proof (intro impI ballI)
    fix q assume "T = defaultStockoutThresholdDays" and "q \<in> set preds"
    with b have "(of_int (sp_daysUntilStockout q) :: rat) \<le> of_int 28"
      by (simp add: defaultStockoutThresholdDays_def)
    then show "sp_daysUntilStockout q \<le> 28"
      by (simp only: of_int_le_iff)
  qed
  from p t s b r d show ?thesis by blast
qed

text \<open>
  Two items at the default threshold: one without movements (projection 365 days, left
  out) and one that consumes 10 a day from a stock of 100 (10 days, stored and returned).
\<close>

theorem predictStockouts_threshold_witness:
  "predictStockouts defaultStockoutThresholdDays 0
     [\<lparr>item_id = ''inv-2'', item_productId = ''prod-2'', currentStock = 100,
        reservedStock = 0, reorderPoint = 20, avgDailyUsage = 0, stockMovements = []\<rparr>,
      \<lparr>item_id = ''inv-1'', item_productId = ''prod-1'', currentStock = 100,
        reservedStock = 0, reorderPoint = 20, avgDailyUsage = 10,
        stockMovements = [\<lparr>mv_type = ''out'', mv_quantity = 50, mv_createdAt = 864000000\<rparr>,
                          \<lparr>mv_type = ''out'', mv_quantity = -50, mv_createdAt = 0\<rparr>]\<rparr>] []
   = ([\<lparr>sp_productId = ''prod-1'', sp_currentStock = 100,
        sp_predictedStockoutDate = 10, sp_daysUntilStockout = 10,
        sp_confidence = 3 / 4, sp_suggestedReorderDate = 3,
        sp_suggestedQuantity = 0,
        sp_factors = [''historical_average'', ''trend_adjustment'']\<rparr>],
      [\<lparr>row_inventoryItemId = ''inv-1'', row_predictedDate = 10,
        row_confidence = 3 / 4, row_daysUntil = 10,
        row_suggestedAction = ''reorder'', row_suggestedQty = 0\<rparr>])
   \<and> sorted (map sp_daysUntilStockout
        [\<lparr>sp_productId = ''prod-1'', sp_currentStock = 100,
          sp_predictedStockoutDate = 10, sp_daysUntilStockout = 10,
          sp_confidence = 3 / 4, sp_suggestedReorderDate = 3,
          sp_suggestedQuantity = 0,
          sp_factors = [''historical_average'', ''trend_adjustment'']\<rparr>])"
proof -
  have e: "predictStockouts defaultStockoutThresholdDays 0
     [\<lparr>item_id = ''inv-2'', item_productId = ''prod-2'', currentStock = 100,
        reservedStock = 0, reorderPoint = 20, avgDailyUsage = 0, stockMovements = []\<rparr>,
      \<lparr>item_id = ''inv-1'', item_productId = ''prod-1'', currentStock = 100,
        reservedStock = 0, reorderPoint = 20, avgDailyUsage = 10,
        stockMovements = [\<lparr>mv_type = ''out'', mv_quantity = 50, mv_createdAt = 864000000\<rparr>,
                          \<lparr>mv_type = ''out'', mv_quantity = -50, mv_createdAt = 0\<rparr>]\<rparr>] []
   = ([\<lparr>sp_productId = ''prod-1'', sp_currentStock = 100,
        sp_predictedStockoutDate = 10, sp_daysUntilStockout = 10,
        sp_confidence = 3 / 4, sp_suggestedReorderDate = 3,
        sp_suggestedQuantity = 0,
        sp_factors = [''historical_average'', ''trend_adjustment'']\<rparr>],
      [\<lparr>row_inventoryItemId = ''inv-1'', row_predictedDate = 10,
        row_confidence = 3 / 4, row_daysUntil = 10,
        row_suggestedAction = ''reorder'', row_suggestedQty = 0\<rparr>])"
    by (simp add: predictStockouts_def itemPrediction_def analyzeConsumption_def abs_total_def
        simpleStockoutPrediction_def trendBasedPrediction_def combinePredicitions_def uniq_def
        predictionRow_def predictionEntry_def defaultStockoutThresholdDays_def Let_def)
  have c: "sorted (map sp_daysUntilStockout
        [\<lparr>sp_productId = ''prod-1'', sp_currentStock = 100,
          sp_predictedStockoutDate = 10, sp_daysUntilStockout = 10,
          sp_confidence = 3 / 4, sp_suggestedReorderDate = 3,
          sp_suggestedQuantity = 0,
          sp_factors = [''historical_average'', ''trend_adjustment'']\<rparr>])"
    by (rule predictStockouts_threshold [OF e, THEN conjunct2, THEN conjunct2, THEN conjunct1])
  from e c show ?thesis by (rule conjI)
qed

section \<open>Properties of the scout agent\<close>

subsection \<open>Effect of a sequence of writes\<close>

lemma createdRows_append: "createdRows (xs @ ys) = createdRows xs @ createdRows ys"
  by (induction xs rule: createdRows.induct) simp_all

lemma priceHistory_foldl:
  "priceHistory (foldl applyWrite db ws) = priceHistory db @ createdRows ws"
proof (induction ws arbitrary: db)
  case Nil
  show ?case by simp
next
  case (Cons w ws)
  show ?case by (cases w) (simp_all add: Cons.IH)
qed

lemma productAfter_id: "spr_id (productAfter p w) = spr_id p"
  by (cases w) simp_all

lemma foldl_productAfter_id: "spr_id (foldl productAfter p ws) = spr_id p"
  by (induction ws arbitrary: p) (simp_all add: productAfter_id)

lemma supplierProducts_foldl:
  "supplierProducts (foldl applyWrite db ws) = map (\<lambda>p. foldl productAfter p ws) (supplierProducts db)"
proof (induction ws arbitrary: db)
  case Nil
  show ?case by simp
next
  case (Cons w ws)
  show ?case by (cases w) (simp_all add: Cons.IH comp_def)
qed

lemma scanItemWrites_rows:
  "createdRows (scanItemWrites sid existing now x) =
     (case find (\<lambda>sp. spr_supplierSku sp = scr_sku x) existing of
        None \<Rightarrow> []
      | Some e \<Rightarrow> if spr_unitPrice e \<noteq> scr_price x then [historyRow sid x] else [])"
  by (simp add: scanItemWrites_def historyRow_def split: option.splits)

lemma scanLoopWrites_rows:
  "createdRows (scanLoopWrites sid existing now xs) =
     map (historyRow sid) (filter (priceChanged existing) xs)"
  by (induction xs)
     (simp_all add: scanLoopWrites_def createdRows_append scanItemWrites_rows priceChanged_def
        split: option.splits)

lemma scanSupplier_priceHistory:
  "priceHistory (snd (scanSupplier env jobId now db supplierId)) =
     priceHistory db @
       (case find (\<lambda>s. sup_id s = supplierId) (suppliers db) of
          None \<Rightarrow> []
        | Some s \<Rightarrow>
            (case scrapeSupplier env s of
               Inl err \<Rightarrow> []
             | Inr scraped \<Rightarrow>
                 map (historyRow (sup_id s)) (filter (priceChanged (existingOf db (sup_id s))) scraped)))"
  by (simp add: scanSupplier_def scanSupplierWrites_def Let_def priceHistory_foldl
        createdRows_append scanLoopWrites_rows existingOf_def
      split: option.splits sum.splits)

lemma foldl_productAfter_untouched:
  assumes "\<And>j y t. UpdateSupplierProduct j y t \<in> set ws \<Longrightarrow> j \<noteq> spr_id p"
  shows "foldl productAfter p ws = p"
  using assms
proof (induction ws)
  case Nil
  show ?case by simp
next
  case (Cons w ws)
  have "productAfter p w = p"
  proof (cases w)
    case (UpdateSupplierProduct j y t)
    with Cons.prems [of j y t] show ?thesis by simp
  qed simp_all
  moreover have "foldl productAfter p ws = p"
    by (rule Cons.IH) (use Cons.prems in auto)
  ultimately show ?case by simp
qed

lemma scanItemWrites_target:
  assumes "UpdateSupplierProduct j y t \<in> set (scanItemWrites sid existing now z)"
  shows "\<exists>e'. find (\<lambda>sp. spr_supplierSku sp = scr_sku z) existing = Some e' \<and> j = spr_id e'"
  using assms unfolding scanItemWrites_def
  by (cases "find (\<lambda>sp. spr_supplierSku sp = scr_sku z) existing") (auto split: if_splits)

lemma find_by_id_map:
  assumes "distinct (map spr_id xs)" and "e \<in> set xs" and "\<And>p. spr_id (g p) = spr_id p"
  shows "find (\<lambda>p. spr_id p = spr_id e) (map g xs) = Some (g e)"
  using assms(1,2)
proof (induction xs)
  case Nil
  then show ?case by simp
next
  case (Cons a xs)
  show ?case
  proof (cases "a = e")
    case True
    then show ?thesis by (simp add: assms(3))
  next
    case False
    with Cons.prems have "e \<in> set xs" by simp
    with Cons.prems have "spr_id a \<noteq> spr_id e" by force
    with Cons \<open>e \<in> set xs\<close> show ?thesis by (simp add: assms(3))
  qed
qed

lemma scanSupplierWrites_found:
  assumes "find (\<lambda>s. sup_id s = supplierId) (suppliers db) = Some s"
    and "scrapeSupplier env s = Inr scraped"
  shows "scanSupplierWrites env jobId now db supplierId =
           [CreateScrapingJob (newJob jobId (sup_id s) now)]
           @ scanLoopWrites (sup_id s) (existingOf db (sup_id s)) now scraped
           @ [UpdateSupplierScraped (sup_id s) now, CompleteScrapingJob jobId scraped now]"
    and "snd (scanSupplier env jobId now db supplierId) =
           foldl applyWrite db (scanSupplierWrites env jobId now db supplierId)"
  using assms by (simp_all add: scanSupplierWrites_def scanSupplier_def existingOf_def Let_def)

subsection \<open>Price changes\<close>

lemma example_found: "find (\<lambda>s. sup_id s = ''supp-1'') (suppliers exampleStore) = Some exampleSupplier"
  by (simp add: exampleStore_def exampleSupplier_def)

lemma example_scrape: "scrapeSupplier (websiteEnv xs) exampleSupplier = Inr xs"
  by (simp add: scrapeSupplier_def websiteEnv_def exampleSupplier_def truthy_str_def)

lemma example_existing:
  "find (\<lambda>sp. spr_supplierSku sp = scr_sku (scrapedAt v)) (existingOf exampleStore (sup_id exampleSupplier))
     = Some exampleProduct"
  by (simp add: existingOf_def exampleStore_def exampleSupplier_def exampleProduct_def scrapedAt_def)

text \<open>
  Claim C6, as the code has it. For a scraped item that matches a stored SupplierProduct
  at a different price, the scan creates a PriceHistory row holding the new scraped price
  and issues it immediately before the update of that SupplierProduct; the row is in the
  PriceHistory table afterwards. When no SKU occurs twice among the scraped items (and
  SupplierProduct ids are unique), the SupplierProduct's price after the scan is the
  scraped price.
\<close>

theorem scanSupplier_price_change:
  assumes found: "find (\<lambda>s. sup_id s = supplierId) (suppliers db) = Some s"
    and scr: "scrapeSupplier env s = Inr scraped"
    and x: "x \<in> set scraped"
    and e: "find (\<lambda>sp. spr_supplierSku sp = scr_sku x) (existingOf db (sup_id s)) = Some e"
    and neq: "spr_unitPrice e \<noteq> scr_price x"
  shows "(\<exists>pre post. scanSupplierWrites env jobId now db supplierId =
            pre @ [CreatePriceHistory (historyRow (sup_id s) x),
                   UpdateSupplierProduct (spr_id e) x now] @ post)
       \<and> historyRow (sup_id s) x \<in> set (priceHistory (snd (scanSupplier env jobId now db supplierId)))
       \<and> ph_price (historyRow (sup_id s) x) = scr_price x
       \<and> (distinct (map scr_sku scraped) \<and> distinct (map spr_id (supplierProducts db)) \<longrightarrow>
            (\<exists>p'. find (\<lambda>p. spr_id p = spr_id e)
                     (supplierProducts (snd (scanSupplier env jobId now db supplierId))) = Some p'
                 \<and> spr_unitPrice p' = scr_price x))"
proof -
  let ?sid = "sup_id s"
  let ?ex = "existingOf db ?sid"
  let ?f = "scanItemWrites ?sid ?ex now"
  let ?ws = "scanSupplierWrites env jobId now db supplierId"
  let ?db' = "snd (scanSupplier env jobId now db supplierId)"
  from x obtain ys zs where split: "scraped = ys @ x # zs"
    by (auto dest: split_list)
  have fx: "?f x = [CreatePriceHistory (historyRow ?sid x), UpdateSupplierProduct (spr_id e) x now]"
    using e neq by (simp add: scanItemWrites_def historyRow_def)
  define pre where "pre = CreateScrapingJob (newJob jobId ?sid now) # concat (map ?f ys)"
  define post where "post = concat (map ?f zs)
      @ [UpdateSupplierScraped ?sid now, CompleteScrapingJob jobId scraped now]"
  have ws: "?ws = pre @ [CreatePriceHistory (historyRow ?sid x),
                         UpdateSupplierProduct (spr_id e) x now] @ post"
    unfolding scanSupplierWrites_found(1) [OF found scr] pre_def post_def
    by (simp add: scanLoopWrites_def split fx)
  have c1: "\<exists>pre post. ?ws = pre @ [CreatePriceHistory (historyRow ?sid x),
                   UpdateSupplierProduct (spr_id e) x now] @ post"
    using ws by blast
  have c2: "historyRow ?sid x \<in> set (priceHistory ?db')"
    unfolding scanSupplierWrites_found(2) [OF found scr] priceHistory_foldl ws
    by (simp add: createdRows_append)
  have c3: "ph_price (historyRow ?sid x) = scr_price x"
    by (simp add: historyRow_def)
  have c4: "\<exists>p'. find (\<lambda>p. spr_id p = spr_id e) (supplierProducts ?db') = Some p'
                 \<and> spr_unitPrice p' = scr_price x"
    if dsku: "distinct (map scr_sku scraped)" and dids: "distinct (map spr_id (supplierProducts db))"
  proof -
    from e have e_sku: "spr_supplierSku e = scr_sku x" and e_ex: "e \<in> set ?ex"
      by (auto simp: find_Some_iff)
    from e_ex have e_db: "e \<in> set (supplierProducts db)"
      by (simp add: existingOf_def)
    have untouched: "j \<noteq> spr_id e" if "UpdateSupplierProduct j y t \<in> set post" for j y t
    proof -
      from that obtain z where z: "z \<in> set zs" and "UpdateSupplierProduct j y t \<in> set (?f z)"
        by (auto simp: post_def)
      then obtain e' where e': "find (\<lambda>sp. spr_supplierSku sp = scr_sku z) ?ex = Some e'"
        and j: "j = spr_id e'"
        by (blast dest: scanItemWrites_target)
      from e' have e'_sku: "spr_supplierSku e' = scr_sku z" and "e' \<in> set ?ex"
        by (auto simp: find_Some_iff)
      then have e'_db: "e' \<in> set (supplierProducts db)"
        by (simp add: existingOf_def)
      from dsku have "scr_sku x \<notin> scr_sku ` set zs"
        by (simp add: split)
      with z have "scr_sku z \<noteq> scr_sku x"
        by (metis imageI)
      with e_sku e'_sku have "e' \<noteq> e" by auto
      with dids e_db e'_db have "spr_id e' \<noteq> spr_id e"
        by (auto simp: distinct_map dest: inj_onD)
      with j show ?thesis by simp
    qed
    let ?g = "\<lambda>p. foldl productAfter p ?ws"
    let ?e1 = "foldl productAfter e pre"
    let ?e2 = "productAfter ?e1 (UpdateSupplierProduct (spr_id e) x now)"
    have id2: "spr_id ?e2 = spr_id e"
      by (simp only: productAfter_id foldl_productAfter_id)
    have "?g e = foldl productAfter ?e2 post"
      by (simp add: ws)
    also have "\<dots> = ?e2"
      by (rule foldl_productAfter_untouched) (use untouched id2 in auto)
    finally have ge: "?g e = ?e2" .
    have "spr_unitPrice ?e2 = scr_price x"
      by (simp add: foldl_productAfter_id)
    with ge have price: "spr_unitPrice (?g e) = scr_price x" by simp
    have "find (\<lambda>p. spr_id p = spr_id e) (supplierProducts ?db') = Some (?g e)"
      unfolding scanSupplierWrites_found(2) [OF found scr] supplierProducts_foldl
      by (rule find_by_id_map [OF dids e_db]) (rule foldl_productAfter_id)
    with price show ?thesis by blast
  qed
  from c1 c2 c3 c4 show ?thesis by blast
qed

text \<open>The example scan at price 12 against the stored price 10.\<close>

theorem scanSupplier_price_change_witness:
  "historyRow (sup_id exampleSupplier) (scrapedAt 12)
     \<in> set (priceHistory (snd (scanSupplier (websiteEnv [scrapedAt 12]) ''job-1'' 1 exampleStore ''supp-1'')))
   \<and> (\<exists>p'. find (\<lambda>p. spr_id p = spr_id exampleProduct)
               (supplierProducts (snd (scanSupplier (websiteEnv [scrapedAt 12]) ''job-1'' 1 exampleStore ''supp-1'')))
             = Some p'
           \<and> spr_unitPrice p' = scr_price (scrapedAt 12))"
proof -
  have x: "scrapedAt 12 \<in> set [scrapedAt 12]" by simp
  have neq: "spr_unitPrice exampleProduct \<noteq> scr_price (scrapedAt 12)"
    by (simp add: exampleProduct_def scrapedAt_def)
  have d: "distinct (map scr_sku [scrapedAt 12]) \<and> distinct (map spr_id (supplierProducts exampleStore))"
    by (simp add: exampleStore_def)
  note t = scanSupplier_price_change [OF example_found example_scrape x example_existing neq,
             of "''job-1''" 1]
  from t [THEN conjunct2, THEN conjunct1]
       t [THEN conjunct2, THEN conjunct2, THEN conjunct2, THEN mp, OF d]
  show ?thesis by (rule conjI)
qed

text \<open>
  Claim C6 as stated fails: the product is stored at price 10 and scraped at 12; the only
  PriceHistory row after the scan holds 12, so no row holds the previous price.
\<close>

theorem scanSupplier_price_change_counterexample:
  "spr_unitPrice exampleProduct = 10
   \<and> map ph_price (priceHistory (snd (scanSupplier (websiteEnv [scrapedAt 12]) ''job-1'' 1 exampleStore ''supp-1'')))
       = [12]"
  by (simp add: scanSupplier_priceHistory example_found example_scrape priceChanged_def
        example_existing historyRow_def)
     (simp add: exampleStore_def exampleProduct_def scrapedAt_def)

text \<open>
  Claim C7. The rows a scan adds to PriceHistory are exactly those of the scraped items
  whose price differs from the stored price of the matching SupplierProduct; an item whose
  scraped price equals the stored price adds none. A scan in which every matched item has
  its stored price leaves the PriceHistory table unchanged.
\<close>

theorem scanSupplier_unchanged_price_no_history:
  assumes found: "find (\<lambda>s. sup_id s = supplierId) (suppliers db) = Some s"
    and scr: "scrapeSupplier env s = Inr scraped"
  shows "priceHistory (snd (scanSupplier env jobId now db supplierId)) =
           priceHistory db
           @ map (historyRow (sup_id s)) (filter (priceChanged (existingOf db (sup_id s))) scraped)
       \<and> ((\<forall>x \<in> set scraped. \<forall>e.
              find (\<lambda>sp. spr_supplierSku sp = scr_sku x) (existingOf db (sup_id s)) = Some e
              \<longrightarrow> spr_unitPrice e = scr_price x)
            \<longrightarrow> priceHistory (snd (scanSupplier env jobId now db supplierId)) = priceHistory db)"
proof -
  have a: "priceHistory (snd (scanSupplier env jobId now db supplierId)) =
           priceHistory db
           @ map (historyRow (sup_id s)) (filter (priceChanged (existingOf db (sup_id s))) scraped)"
    by (simp add: scanSupplier_priceHistory found scr)
  have "filter (priceChanged (existingOf db (sup_id s))) scraped = []"
    if "\<forall>x \<in> set scraped. \<forall>e.
              find (\<lambda>sp. spr_supplierSku sp = scr_sku x) (existingOf db (sup_id s)) = Some e
              \<longrightarrow> spr_unitPrice e = scr_price x"
    using that by (auto simp: filter_empty_conv priceChanged_def split: option.splits)
  with a show ?thesis by simp
qed

text \<open>The example scan at the stored price 10.\<close>

theorem scanSupplier_unchanged_price_no_history_witness:
  "priceHistory (snd (scanSupplier (websiteEnv [scrapedAt 10]) ''job-2'' 2 exampleStore ''supp-1''))
     = priceHistory exampleStore"
proof -
  have h: "\<forall>x \<in> set [scrapedAt 10]. \<forall>e.
              find (\<lambda>sp. spr_supplierSku sp = scr_sku x) (existingOf exampleStore (sup_id exampleSupplier)) = Some e
              \<longrightarrow> spr_unitPrice e = scr_price x"
    by (simp add: example_existing) (simp add: exampleProduct_def scrapedAt_def)
  show ?thesis
    by (rule scanSupplier_unchanged_price_no_history [OF example_found example_scrape,
          THEN conjunct2, THEN mp, OF h])
qed

subsection \<open>Stock check\<close>

lemma performStockCheck_fallback:
  assumes "\<not> truthy_str (sup_apiEndpoint s) \<or> stockApi s sku = None"
  shows "performStockCheck stockApi s sku = \<lparr>sd_inStock = True, sd_stockLevel = None\<rparr>"
  using assms by (auto simp: performStockCheck_def Let_def)

text \<open>
  Claim C9 asks the fallback of the single-SKU stock check to report the stock state last
  stored for the product. The code returns the constant \<^verbatim>\<open>{ inStock: true }\<close>
  instead: for the example supplier, which has no API endpoint, and its product stored as
  out of stock with level 0, \<^verbatim>\<open>checkStock\<close> reports the product in stock and
  overwrites the stored flag, whatever the stock endpoint would answer.
\<close>

theorem checkStock_fallback_ignores_stored_state:
  "sup_apiEndpoint exampleSupplier = None
   \<and> spr_inStock exampleProduct = False \<and> spr_stockLevel exampleProduct = Some 0
   \<and> fst (checkStock stockApi 5 exampleStore ''supp-1'' ''SKU-001'')
       = Inr \<lparr>sd_inStock = True, sd_stockLevel = None\<rparr>
   \<and> map spr_inStock (supplierProducts (snd (checkStock stockApi 5 exampleStore ''supp-1'' ''SKU-001'')))
       = [True]"
  by (simp add: checkStock_def performStockCheck_def exampleStore_def exampleSupplier_def
        exampleProduct_def truthy_str_def Let_def)

section \<open>Properties of the diplomat agent\<close>

subsection \<open>Double-precision arithmetic\<close>

text \<open>
  The binary logarithm used by \<^const>\<open>toDouble\<close> brackets its argument between two
  consecutive powers of two, so the significand \<open>|x| / 2\<^sup>e\<close> that is rounded lies in
  \<open>[2\<^sup>5\<^sup>2, 2\<^sup>5\<^sup>3)\<close> for every number in the normal range.
\<close>

lemma bitLength_zero [simp]: "bitLength 0 = 0"
  by (simp add: bitLength.simps)

lemma bitLength_one [simp]: "bitLength 1 = 1" "bitLength (Suc 0) = 1"
  by (simp_all add: bitLength.simps [of 1] bitLength.simps [of "Suc 0"])

lemma bitLength_bounds: "0 < n \<Longrightarrow> 2 ^ (bitLength n - 1) \<le> n \<and> n < 2 ^ bitLength n"
proof (induction n rule: bitLength.induct)
  case (1 n)
  show ?case
  proof (cases "n div 2 = 0")
    case True
    with 1(2) have "n = 1" by (simp add: div_eq_0_iff) 
    then show ?thesis by (simp add: bitLength.simps [of "Suc 0"] bitLength.simps [of 0])
  next
    case False
    then have pos: "0 < n div 2" by simp
    from 1(2) have n0: "n \<noteq> 0" by simp
    from 1(1) [OF n0 pos] have ih: "2 ^ (bitLength (n div 2) - 1) \<le> n div 2"
        "n div 2 < 2 ^ bitLength (n div 2)" by simp_all
    have bp: "0 < bitLength (n div 2)"
      using pos by (simp add: bitLength.simps [of "n div 2"])
    have eq: "bitLength n = Suc (bitLength (n div 2))"
      using n0 by (simp add: bitLength.simps [of n])
    from bp obtain m where m: "bitLength (n div 2) = Suc m" by (cases "bitLength (n div 2)") auto
    from ih m have "2 * 2 ^ m \<le> n" "n < 2 * 2 ^ Suc m" by (simp_all)
    then show ?thesis by (simp add: eq m)
  qed
qed

lemma floorLog2_bounds:
  assumes "0 < x"
  shows "pow2 (floorLog2 x) \<le> x \<and> x < pow2 (floorLog2 x + 1)"
proof (cases "1 \<le> x")
  case True
  let ?n = "nat \<lfloor>x\<rfloor>"
  have n1: "0 < ?n" using True by simp
  from bitLength_bounds [OF n1] have b: "2 ^ (bitLength ?n - 1) \<le> ?n" "?n < 2 ^ bitLength ?n"
    by simp_all
  have bp: "0 < bitLength ?n" using n1 by (simp add: bitLength.simps [of ?n])
  have fl: "floorLog2 x = int (bitLength ?n) - 1" using True by (simp add: floorLog2_def)
  have lo: "(2::rat) ^ (bitLength ?n - 1) \<le> x"
  proof -
    have "(of_nat (2 ^ (bitLength ?n - 1)) :: rat) \<le> of_nat ?n" using b(1) by (simp only: of_nat_le_iff)
    also have "\<dots> = of_int \<lfloor>x\<rfloor>" using True by simp
    also have "\<dots> \<le> x" by simp
    finally show ?thesis by simp
  qed
  have hi: "x < (2::rat) ^ bitLength ?n"
  proof -
    have "\<lfloor>x\<rfloor> < 2 ^ bitLength ?n" using b(2) True by (simp add: nat_less_iff)
    then have "\<lfloor>x\<rfloor> + 1 \<le> 2 ^ bitLength ?n" by simp
    then have "(of_int (\<lfloor>x\<rfloor> + 1) :: rat) \<le> of_int (2 ^ bitLength ?n)" by (simp only: of_int_le_iff)
    moreover have "x < of_int (\<lfloor>x\<rfloor> + 1)" by linarith
    ultimately show ?thesis by simp
  qed
  from bp have "nat (int (bitLength ?n) - 1) = bitLength ?n - 1" by simp
  with lo hi bp show ?thesis by (simp add: fl pow2_def)
next
  case False
  then have x1: "x < 1" by simp
  let ?c = "\<lceil>1 / x\<rceil>"
  let ?n = "nat (?c - 1)"
  have inv: "1 < 1 / x" using assms x1 by simp
  then have c2: "2 \<le> ?c" by (simp add: le_ceiling_iff)
  then have n1: "0 < ?n" by simp
  from bitLength_bounds [OF n1] have b: "2 ^ (bitLength ?n - 1) \<le> ?n" "?n < 2 ^ bitLength ?n"
    by simp_all
  have bp: "0 < bitLength ?n" using n1 by (simp add: bitLength.simps [of ?n])
  have fl: "floorLog2 x = - int (bitLength ?n)" using False by (simp add: floorLog2_def)
  have up: "1 / x \<le> 2 ^ bitLength ?n"
  proof -
    have "?c - 1 < 2 ^ bitLength ?n" using b(2) c2 by (simp add: nat_less_iff)
    then have "?c \<le> 2 ^ bitLength ?n" by simp
    then have "(of_int ?c :: rat) \<le> of_int (2 ^ bitLength ?n)" by (simp only: of_int_le_iff)
    then have "(of_int ?c :: rat) \<le> 2 ^ bitLength ?n" by simp
    moreover have "1 / x \<le> of_int ?c" by (rule le_of_int_ceiling)
    ultimately show ?thesis by (rule order_trans [rotated])
  qed
  have dn: "(2::rat) ^ (bitLength ?n - 1) < 1 / x"
  proof -
    have "(2::int) ^ (bitLength ?n - 1) \<le> ?c - 1" using b(1) c2 by (simp add: le_nat_iff)
    then have "(of_int (2 ^ (bitLength ?n - 1)) :: rat) \<le> of_int (?c - 1)" by (simp only: of_int_le_iff)
    moreover have "(of_int (?c - 1) :: rat) < 1 / x" by linarith
    ultimately show ?thesis by simp
  qed
  have lo: "1 / 2 ^ bitLength ?n \<le> x"
    using up assms by (simp add: field_simps)
  have hi: "x < 1 / 2 ^ (bitLength ?n - 1)"
    using dn assms by (simp add: field_simps)
  show ?thesis
  proof (cases "bitLength ?n = 1")
    case True
    with lo hi show ?thesis by (simp add: fl pow2_def)
  next
    case F: False
    with bp have "nat (int (bitLength ?n) - 1) = bitLength ?n - 1" "\<not> int (bitLength ?n) \<le> 1" by simp_all
    with lo hi bp show ?thesis by (simp add: fl pow2_def)
  qed
qed

lemma roundHalfEven_near: "\<bar>of_int (roundHalfEven y) - y\<bar> \<le> 1 / 2"
proof -
  have "of_int \<lfloor>y\<rfloor> \<le> y" "y < of_int \<lfloor>y\<rfloor> + 1"
    by linarith+
  then show ?thesis
    by (simp add: roundHalfEven_def Let_def abs_if) linarith
qed

text \<open>
  Evaluation of the arithmetic on numerals: the floor and the ceiling of a fraction of
  numerals, and the number of binary digits of a numeral.
\<close>

lemma floor_rat_numeral [simp]: "\<lfloor>numeral a / numeral b :: rat\<rfloor> = numeral a div numeral b"
  by (metis floor_divide_of_int_eq of_int_numeral)

lemma floor_rat_one_numeral [simp]: "\<lfloor>1 / numeral b :: rat\<rfloor> = 1 div numeral b"
  by (metis floor_divide_of_int_eq of_int_numeral of_int_1)

lemma ceiling_rat_numeral [simp]:
  "\<lceil>numeral a / numeral b :: rat\<rceil> = - ((- numeral a) div numeral b)"
  by (metis ceiling_divide_eq_div of_int_numeral)

lemma bitLength_numeral [simp]: "bitLength (numeral k) = numBits k"
proof (induction k)
  case One
  show ?case by simp
next
  case (Bit0 k)
  have "bitLength (numeral (Num.Bit0 k)) = Suc (bitLength (numeral (Num.Bit0 k) div 2))"
    by (subst bitLength.simps) simp
  with Bit0 show ?case by simp
next
  case (Bit1 k)
  have "bitLength (numeral (Num.Bit1 k)) = Suc (bitLength (numeral (Num.Bit1 k) div 2))"
    by (subst bitLength.simps) simp
  with Bit1 show ?case by simp
qed

lemmas double_eval =
  toDouble_def floorLog2_def roundHalfEven_def pow2_def jneg_def jadd_def jsub_def jsign_def
  jmul_def jdiv_def jless_def jeq_def jge_def jtruthy_def js_or_def Let_def

text \<open>
  The decimal fractions \<open>0.1\<close>, \<open>0.2\<close> and \<open>0.3\<close> as doubles: the sum of the first
  two is \<open>0.30000000000000004\<close>, not the double of \<open>0.3\<close>.
\<close>

lemma toDouble_tenth: "toDouble (1 / 10) = Fin (3602879701896397 / 36028797018963968)"
  by (simp add: double_eval)

lemma double_sum_example:
  "jadd (toDouble (1 / 10)) (toDouble (2 / 10)) = Fin (1351079888211149 / 4503599627370496)"
  "toDouble (3 / 10) = Fin (5404319552844595 / 18014398509481984)"
  by (simp_all add: double_eval)

lemma roundHalfEven_ties: "roundHalfEven (5 / 2) = 2" "roundHalfEven (7 / 2) = 4"
  by (simp_all add: roundHalfEven_def Let_def)

subsection \<open>Store operations\<close>

lemma negotiations_createMessage [simp]: "negotiations (createMessage m db) = negotiations db"
  by (simp add: createMessage_def)

lemma negotiations_sendEmail: "sendEmail env e db = Inr db' \<Longrightarrow> negotiations db' = negotiations db"
  by (auto simp: sendEmail_def split: option.splits)

lemma negotiations_updateNegotiation:
  "negotiations (updateNegotiation i f db) = map (\<lambda>n. if neg_id n = i then f n else n) (negotiations db)"
  by (simp add: updateNegotiation_def)

lemma find_updated:
  assumes "find (\<lambda>n. neg_id n = i) xs = Some n" and "neg_id (f n) = neg_id n"
  shows "find (\<lambda>n. neg_id n = i) (map (\<lambda>n. if neg_id n = i then f n else n) xs) = Some (f n)"
  using assms by (induction xs) (auto split: if_splits)

lemma statusOf_updateNegotiation:
  assumes "find (\<lambda>n. neg_id n = i) (negotiations db) = Some n" and "neg_id (f n) = neg_id n"
  shows "statusOf (updateNegotiation i f db) i = Some (neg_status (f n))"
  using assms find_updated [of i "negotiations db" n f]
  by (simp add: statusOf_def negotiations_updateNegotiation)

lemma statusStep_map:
  assumes "\<And>n. statusStep n (f n)"
  shows "list_all2 statusStep xs (map (\<lambda>n. if neg_id n = i then f n else n) xs)"
  using assms by (simp add: list_all2_map2 list_all2_same statusStep_def)

lemma statusStep_same: "list_all2 statusStep xs xs"
  by (simp add: list_all2_same statusStep_def)

lemma respondToCounter_statusStep:
  "list_all2 statusStep (negotiations db)
     (negotiations (snd (respondToCounter cfg env now db negotiation co k)))"
  by (auto simp: respondToCounter_def Let_def negotiations_updateNegotiation statusStep_same
        terminalStatus_def statusStep_def
      split: sum.splits dest!: negotiations_sendEmail intro!: statusStep_map)

lemma finalDecisionStep_statusStep:
  "list_all2 statusStep (negotiations db)
     (negotiations (snd (finalDecisionStep cfg now db negotiation c)))"
  by (auto simp: finalDecisionStep_def Let_def negotiations_updateNegotiation
        terminalStatus_def statusStep_def intro!: statusStep_map)

lemma processNegotiationResponse_statusStep:
  "list_all2 statusStep (negotiations db)
     (negotiations (snd (processNegotiationResponse cfg env now db negotiationId content)))"
proof (cases "find (\<lambda>n. neg_id n = negotiationId) (negotiations db)")
  case None
  then show ?thesis by (simp add: processNegotiationResponse_def statusStep_same)
next
  case (Some negotiation)
  let ?db1 = "createMessage (inboundMessage (neg_id negotiation) content) db"
  have n1: "negotiations ?db1 = negotiations db" by simp
  show ?thesis
  proof (cases "analyzeResponse (env_classification env) negotiation")
    case (Inl err)
    with Some show ?thesis by (simp add: processNegotiationResponse_def Let_def statusStep_same)
  next
    case (Inr a)
    have r: "list_all2 statusStep (negotiations db)
               (negotiations (snd (respondToCounter cfg env now ?db1 negotiation co k)))" for co k
      using respondToCounter_statusStep [of ?db1] by (simp only: n1)
    have f: "list_all2 statusStep (negotiations db)
               (negotiations (snd (finalDecisionStep cfg now ?db1 negotiation c)))" for c
      using finalDecisionStep_statusStep [of ?db1] by (simp only: n1)
    have u: "list_all2 statusStep (negotiations db)
               (negotiations (updateNegotiation i g ?db1))" if "\<And>n. statusStep n (g n)" for i g
      using statusStep_map [OF that] by (simp add: negotiations_updateNegotiation)
    from Some Inr show ?thesis
      by (auto simp: processNegotiationResponse_def Let_def r f statusStep_def terminalStatus_def
            split: option.splits intro!: u)
  qed
qed

subsection \<open>Evaluation of a counter-offer\<close>

text \<open>
  A counter-offer is acceptable exactly when the savings ratio computed in double
  precision is at least the double \<^verbatim>\<open>targetImprovement * 0.5\<close>; at the default target
  that threshold is the double \<open>0.025000000000000001387778780781445675529539585113525390625\<close>.
\<close>

lemma acceptable_iff:
  "acceptable (evaluateCounterOffer co ps t) = jge (savingsPercent co ps) (acceptanceThreshold t)"
  by (simp add: evaluateCounterOffer_def split: prod.splits)

lemma threshold_default: "acceptanceThreshold (5 / 100) = Fin (3602879701896397 / 144115188075855872)"
  by (simp add: acceptanceThreshold_def double_eval)

lemma threshold_normal: "acceptanceThreshold (1 / 20) = Fin (3602879701896397 / 144115188075855872)"
  using threshold_default by simp

subsection \<open>Branches of the reply processing\<close>

lemma found_id: "find (\<lambda>n. neg_id n = i) xs = Some n \<Longrightarrow> neg_id n = i"
  by (auto simp: find_Some_iff)

lemma statusOf_createMessage [simp]: "statusOf (createMessage m db) i = statusOf db i"
  by (simp add: statusOf_def)

lemma statusOf_sentEmails [simp]: "statusOf (db\<lparr>sentEmails := x\<rparr>) i = statusOf db i"
  by (simp add: statusOf_def)

lemma processNegotiationResponse_counter:
  assumes found: "find (\<lambda>n. neg_id n = negotiationId) (negotiations db) = Some negotiation"
    and cls: "env_classification env = Parsed r"
    and counter: "\<not> js_accepted r" "\<not> js_rejected r" "js_counterOffer r = Some co"
  shows "processNegotiationResponse cfg env now db negotiationId content =
           (if of_nat (roundNumber (messagesOf db negotiationId)) < cfg_maxRounds cfg
            then respondToCounter cfg env now
                   (createMessage (inboundMessage negotiationId content) db) negotiation co
                   (roundNumber (messagesOf db negotiationId))
            else finalDecisionStep cfg now
                   (createMessage (inboundMessage negotiationId content) db) negotiation (Some co))"
  using found_id [OF found] found cls counter
  by (simp add: processNegotiationResponse_def analyzeResponse_def Let_def)

lemma respondToCounter_accept:
  assumes found: "find (\<lambda>n. neg_id n = neg_id negotiation) (negotiations db) = Some negotiation"
    and acc: "acceptable (evaluateCounterOffer co (neg_products negotiation) (cfg_targetImprovement cfg))"
  shows "statusOf (snd (respondToCounter cfg env now db negotiation co k)) (neg_id negotiation)
           = Some ''accepted''"
proof -
  let ?f = "\<lambda>n. n\<lparr>neg_status := ''accepted'', neg_finalTerms := Some co,
              neg_savings := Some (actualSavings
                 (evaluateCounterOffer co (neg_products negotiation) (cfg_targetImprovement cfg))),
              neg_completedAt := Some now,
              neg_counterOffers := neg_counterOffers negotiation @ [co]\<rparr>"
  have "statusOf (updateNegotiation (neg_id negotiation) ?f db) (neg_id negotiation)
          = Some (neg_status (?f negotiation))"
    by (rule statusOf_updateNegotiation [OF found]) simp
  with acc show ?thesis
    by (simp add: respondToCounter_def Let_def sendEmail_def split: option.splits)
qed

lemma respondToCounter_counter:
  assumes found: "find (\<lambda>n. neg_id n = neg_id negotiation) (negotiations db) = Some negotiation"
    and nacc: "\<not> acceptable (evaluateCounterOffer co (neg_products negotiation) (cfg_targetImprovement cfg))"
    and gen: "env_counterEmail env = Inr e" and sent: "env_transport env e = None"
  shows "respondToCounter cfg env now db negotiation co k =
           (Inr (RespCounterSent (k + 1)),
            updateNegotiation (neg_id negotiation)
              (\<lambda>n. n\<lparr>neg_counterOffers := neg_counterOffers negotiation @ [co]\<rparr>)
              (createMessage (outboundMessage (neg_id negotiation) e now)
                 (db\<lparr>sentEmails := sentEmails db @ [e]\<rparr>)))"
    and "statusOf (snd (respondToCounter cfg env now db negotiation co k)) (neg_id negotiation)
           = Some (neg_status negotiation)"
proof -
  show eq: "respondToCounter cfg env now db negotiation co k =
           (Inr (RespCounterSent (k + 1)),
            updateNegotiation (neg_id negotiation)
              (\<lambda>n. n\<lparr>neg_counterOffers := neg_counterOffers negotiation @ [co]\<rparr>)
              (createMessage (outboundMessage (neg_id negotiation) e now)
                 (db\<lparr>sentEmails := sentEmails db @ [e]\<rparr>)))"
    using nacc gen sent by (simp add: respondToCounter_def Let_def sendEmail_def)
  let ?db2 = "createMessage (outboundMessage (neg_id negotiation) e now)
                 (db\<lparr>sentEmails := sentEmails db @ [e]\<rparr>)"
  let ?f = "\<lambda>n. n\<lparr>neg_counterOffers := neg_counterOffers negotiation @ [co]\<rparr>"
  have f2: "find (\<lambda>n. neg_id n = neg_id negotiation) (negotiations ?db2) = Some negotiation"
    using found by simp
  have "statusOf (updateNegotiation (neg_id negotiation) ?f ?db2) (neg_id negotiation)
          = Some (neg_status (?f negotiation))"
    by (rule statusOf_updateNegotiation [OF f2]) simp
  then show "statusOf (snd (respondToCounter cfg env now db negotiation co k)) (neg_id negotiation)
           = Some (neg_status negotiation)"
    by (simp add: eq)
qed

lemma respondToCounter_failure:
  assumes nacc: "\<not> acceptable (evaluateCounterOffer co (neg_products negotiation) (cfg_targetImprovement cfg))"
    and fail: "\<not> (\<exists>e. env_counterEmail env = Inr e \<and> env_transport env e = None)"
  shows "\<exists>err. respondToCounter cfg env now db negotiation co k = (Inl err, db)"
  using assms
  by (auto simp: respondToCounter_def Let_def sendEmail_def split: sum.splits option.splits)

lemma finalDecisionStep_status:
  assumes found: "find (\<lambda>n. neg_id n = neg_id negotiation) (negotiations db) = Some negotiation"
  shows "statusOf (snd (finalDecisionStep cfg now db negotiation c)) (neg_id negotiation) =
           Some (if (case c of Some co \<Rightarrow>
                       acceptable (evaluateCounterOffer co (neg_products negotiation)
                                     (cfg_targetImprovement cfg))
                     | None \<Rightarrow> False)
                 then ''accepted'' else ''expired'')"
    and "fst (finalDecisionStep cfg now db negotiation c) =
           (case c of
              Some co \<Rightarrow>
                (let ev = evaluateCounterOffer co (neg_products negotiation) (cfg_targetImprovement cfg)
                 in if acceptable ev then Inr (RespFinalAccepted (actualSavings ev))
                    else Inr RespNoAgreement)
            | None \<Rightarrow> Inr RespNoAgreement)"
proof -
  have u: "statusOf (updateNegotiation (neg_id negotiation) f db) (neg_id negotiation)
          = Some (neg_status (f negotiation))" if "neg_id (f negotiation) = neg_id negotiation" for f
    using found that by (rule statusOf_updateNegotiation [of "neg_id negotiation" db negotiation f])
  show "statusOf (snd (finalDecisionStep cfg now db negotiation c)) (neg_id negotiation) =
           Some (if (case c of Some co \<Rightarrow>
                       acceptable (evaluateCounterOffer co (neg_products negotiation)
                                     (cfg_targetImprovement cfg))
                     | None \<Rightarrow> False)
                 then ''accepted'' else ''expired'')"
    by (cases c) (simp_all add: finalDecisionStep_def Let_def u)
  show "fst (finalDecisionStep cfg now db negotiation c) =
           (case c of
              Some co \<Rightarrow>
                (let ev = evaluateCounterOffer co (neg_products negotiation) (cfg_targetImprovement cfg)
                 in if acceptable ev then Inr (RespFinalAccepted (actualSavings ev))
                    else Inr RespNoAgreement)
            | None \<Rightarrow> Inr RespNoAgreement)"
    by (cases c) (simp_all add: finalDecisionStep_def Let_def)
qed

lemma messages_snd_respondToCounter:
  assumes "env_counterEmail env = Inr e" and "env_transport env e = None"
    and "\<not> acceptable (evaluateCounterOffer co (neg_products negotiation) (cfg_targetImprovement cfg))"
  shows "negotiationMessages (snd (respondToCounter cfg env now db negotiation co k))
           = negotiationMessages db @ [outboundMessage (neg_id negotiation) e now]"
    and "sentEmails (snd (respondToCounter cfg env now db negotiation co k)) = sentEmails db @ [e]"
  using assms
  by (simp_all add: respondToCounter_def Let_def sendEmail_def updateNegotiation_def createMessage_def)

lemma processNegotiationResponse_unparseable:
  assumes found: "find (\<lambda>n. neg_id n = negotiationId) (negotiations db) = Some negotiation"
    and cls: "env_classification env = Unparseable"
  shows "fst (processNegotiationResponse cfg env now db negotiationId content) = Inr RespNoAgreement"
    and "statusOf (snd (processNegotiationResponse cfg env now db negotiationId content)) negotiationId
           = Some ''expired''"
proof -
  let ?db1 = "createMessage (inboundMessage negotiationId content) db"
  have idn: "neg_id negotiation = negotiationId" by (rule found_id [OF found])
  have eq: "processNegotiationResponse cfg env now db negotiationId content =
              finalDecisionStep cfg now ?db1 negotiation None"
    using found cls idn by (simp add: processNegotiationResponse_def analyzeResponse_def Let_def)
  have f1: "find (\<lambda>n. neg_id n = neg_id negotiation) (negotiations ?db1) = Some negotiation"
    using found idn by simp
  show "fst (processNegotiationResponse cfg env now db negotiationId content) = Inr RespNoAgreement"
    by (simp add: eq finalDecisionStep_status(2) [OF f1])
  show "statusOf (snd (processNegotiationResponse cfg env now db negotiationId content)) negotiationId
           = Some ''expired''"
    using finalDecisionStep_status(1) [OF f1, of cfg now None] by (simp add: eq idn)
qed

lemma processNegotiationResponse_rejected:
  assumes found: "find (\<lambda>n. neg_id n = negotiationId) (negotiations db) = Some negotiation"
    and cls: "env_classification env = Parsed r"
    and rej: "\<not> js_accepted r" "js_rejected r"
  shows "statusOf (snd (processNegotiationResponse cfg env now db negotiationId content))
           negotiationId = Some ''rejected''"
proof -
  let ?db1 = "createMessage (inboundMessage negotiationId content) db"
  let ?f = "\<lambda>n. n\<lparr>neg_status := ''rejected'', neg_completedAt := Some now\<rparr>"
  have f1: "find (\<lambda>n. neg_id n = negotiationId) (negotiations ?db1) = Some negotiation"
    using found by simp
  have "snd (processNegotiationResponse cfg env now db negotiationId content)
          = updateNegotiation negotiationId ?f ?db1"
    using found_id [OF found] found cls rej
    by (simp add: processNegotiationResponse_def analyzeResponse_def Let_def split: option.splits)
  with statusOf_updateNegotiation [OF f1, of ?f] show ?thesis by simp
qed

subsection \<open>The example negotiation\<close>

lemma example_negotiation_found:
  "find (\<lambda>n. neg_id n = ''neg-1'') (negotiations (negotiationStore st k)) = Some (exampleNegotiation st)"
  by (simp add: negotiationStore_def exampleNegotiation_def)

lemma example_round: "roundNumber (messagesOf (negotiationStore st k) ''neg-1'') = k + 1"
  by (induction k) (simp_all add: roundNumber_def messagesOf_def negotiationStore_def outboundMessage_def)

lemma example_status: "statusOf (negotiationStore st k) ''neg-1'' = Some st"
  by (simp add: statusOf_def example_negotiation_found) (simp add: exampleNegotiation_def)

lemma example_cls: "env_classification (replyEnv c) = c"
  by (simp add: replyEnv_def)

lemma example_counter:
  "\<not> js_accepted (counterReply v)" "\<not> js_rejected (counterReply v)"
  "js_counterOffer (counterReply v) = Some (counterAt v)"
  by (simp_all add: counterReply_def)

lemma example_env:
  "env_counterEmail (replyEnv c) = Inr exampleEmail" "env_transport (replyEnv c) exampleEmail = None"
  by (simp_all add: replyEnv_def)

text \<open>
  Against the price 10 for 100 units, the counter-price 9.70 saves
  \<open>0.030000000000000113\<close> of the total in double precision and 9.90 saves \<open>0.01\<close>.
\<close>

lemma example_accepts_97:
  "jge (savingsPercent (counterAt (97 / 10)) (neg_products (exampleNegotiation st)))
       (acceptanceThreshold (5 / 100))"
  by (simp add: savingsPercent_def offerTotals_def counterPrice_def counterAt_def
        exampleNegotiation_def threshold_normal double_eval)

lemma example_refuses_99:
  "\<not> jge (savingsPercent (counterAt (99 / 10)) (neg_products (exampleNegotiation st)))
         (acceptanceThreshold (5 / 100))"
  by (simp add: savingsPercent_def offerTotals_def counterPrice_def counterAt_def
        exampleNegotiation_def threshold_normal double_eval)

lemma example_not_acceptable:
  "\<not> acceptable (evaluateCounterOffer (counterAt (99 / 10)) (neg_products (exampleNegotiation st))
                    (cfg_targetImprovement defaultDiplomatConfig))"
  using example_refuses_99 [of st] by (simp add: acceptable_iff defaultDiplomatConfig_def)

lemma example_counter_eq:
  "processNegotiationResponse cfg (replyEnv (Parsed (counterReply v))) now (negotiationStore st k)
     ''neg-1'' content =
     (if of_nat (k + 1) < cfg_maxRounds cfg
      then respondToCounter cfg (replyEnv (Parsed (counterReply v))) now
             (createMessage (inboundMessage ''neg-1'' content) (negotiationStore st k))
             (exampleNegotiation st) (counterAt v) (k + 1)
      else finalDecisionStep cfg now
             (createMessage (inboundMessage ''neg-1'' content) (negotiationStore st k))
             (exampleNegotiation st) (Some (counterAt v)))"
  using processNegotiationResponse_counter [OF example_negotiation_found example_cls example_counter]
  by (simp add: example_round)

text \<open>
  One unit at 2.80 countered at 2.73: the saving is 2.5 per cent of the total in exact
  arithmetic, and \<open>0.024999999999999946\<close> as the code computes it.
\<close>

lemma boundary_found:
  "find (\<lambda>n. neg_id n = ''neg-2'') (negotiations boundaryStore) = Some boundaryNegotiation"
  by (simp add: boundaryStore_def boundaryNegotiation_def)

lemma boundary_round: "roundNumber (messagesOf boundaryStore ''neg-2'') = 2"
  by (simp add: roundNumber_def messagesOf_def boundaryStore_def outboundMessage_def)

lemma boundary_exact_ratio:
  "spec_actualSavings (counterAt (273 / 100)) (neg_products boundaryNegotiation)
     / spec_originalTotal (neg_products boundaryNegotiation) = 25 / 1000"
  by (simp add: spec_actualSavings_def spec_originalTotal_def spec_counterPrice_def opt_or_def
        num_or_def counterAt_def boundaryNegotiation_def)

lemma boundary_refused:
  "\<not> jge (savingsPercent (counterAt (273 / 100)) (neg_products boundaryNegotiation))
         (acceptanceThreshold (5 / 100))"
  by (simp add: savingsPercent_def offerTotals_def counterPrice_def counterAt_def
        boundaryNegotiation_def threshold_normal double_eval)

subsection \<open>Unparseable classification\<close>

text \<open>
  Claim C1, as the code has it. A reply whose classification cannot be parsed is analysed
  as neither accepted nor rejected and without counter-offer, so it reaches the final
  decision branch with nothing to accept: once the round computed from the message log
  has reached the maximum number of rounds, the negotiation is moved to \<^verbatim>\<open>expired\<close>
  and the result is \<^verbatim>\<open>no_agreement\<close>.
\<close>

theorem unparseable_reply_final_decision:
  assumes found: "find (\<lambda>n. neg_id n = negotiationId) (negotiations db) = Some negotiation"
    and cls: "env_classification env = Unparseable"
    and maxr: "cfg_maxRounds cfg \<le> of_nat (roundNumber (messagesOf db negotiationId))"
  shows "fst (processNegotiationResponse cfg env now db negotiationId content) = Inr RespNoAgreement
       \<and> statusOf (snd (processNegotiationResponse cfg env now db negotiationId content)) negotiationId
           = Some ''expired''"
  using processNegotiationResponse_unparseable [OF found cls] by simp

text \<open>Two outbound messages (round 3) at the default maximum of 3 rounds.\<close>

theorem unparseable_reply_final_decision_witness:
  "fst (processNegotiationResponse defaultDiplomatConfig (replyEnv Unparseable) 5
          (negotiationStore ''in_progress'' 2) ''neg-1'' ''Let us talk next week.'') = Inr RespNoAgreement
   \<and> statusOf (snd (processNegotiationResponse defaultDiplomatConfig (replyEnv Unparseable) 5
          (negotiationStore ''in_progress'' 2) ''neg-1'' ''Let us talk next week.'')) ''neg-1''
       = Some ''expired''"
proof -
  have m: "cfg_maxRounds defaultDiplomatConfig
             \<le> of_nat (roundNumber (messagesOf (negotiationStore ''in_progress'' 2) ''neg-1''))"
    by (simp add: example_round defaultDiplomatConfig_def)
  show ?thesis
    by (rule unparseable_reply_final_decision [OF example_negotiation_found example_cls m])
qed

text \<open>
  Claim C1 as stated fails: the negotiation is in progress, the reply is unparseable, and
  afterwards the stored status is \<^verbatim>\<open>expired\<close>, not \<^verbatim>\<open>in_progress\<close>.
\<close>

theorem unparseable_reply_stall_counterexample:
  "statusOf (negotiationStore ''in_progress'' 2) ''neg-1'' = Some ''in_progress''
   \<and> statusOf (snd (processNegotiationResponse defaultDiplomatConfig (replyEnv Unparseable) 5
          (negotiationStore ''in_progress'' 2) ''neg-1'' ''Let us talk next week.'')) ''neg-1''
       = Some ''expired''"
  by (simp add: example_status
        processNegotiationResponse_unparseable(2) [OF example_negotiation_found example_cls])

subsection \<open>Counter-offers\<close>

text \<open>
  Claim C2, as the code has it. With the target improvement 5 per cent, for a reply
  classified as a counter-offer to a negotiation in progress: if the savings ratio that
  \<^verbatim>\<open>evaluateCounterOffer\<close> computes in double precision is at least the double
  \<^verbatim>\<open>0.05 * 0.5\<close>, the negotiation becomes \<^verbatim>\<open>accepted\<close>. If it is below and rounds
  remain, then either the counter-email is generated and sent, it is logged as outbound,
  the result is \<^verbatim>\<open>counter_sent\<close> and the negotiation stays \<^verbatim>\<open>in_progress\<close>; or
  generating or sending it fails, the call returns an error result, no email is sent and
  the negotiation stays \<^verbatim>\<open>in_progress\<close>. If it is below and the rounds are exhausted,
  the negotiation becomes \<^verbatim>\<open>expired\<close>.
\<close>

theorem counterOffer_half_target:
  assumes found: "find (\<lambda>n. neg_id n = negotiationId) (negotiations db) = Some negotiation"
    and inprog: "neg_status negotiation = ''in_progress''"
    and target: "cfg_targetImprovement cfg = 5 / 100"
    and cls: "env_classification env = Parsed r"
    and counter: "\<not> js_accepted r" "\<not> js_rejected r" "js_counterOffer r = Some co"
  shows "let enough = jge (savingsPercent co (neg_products negotiation))
                          (acceptanceThreshold (5 / 100));
             roundNo = roundNumber (messagesOf db negotiationId);
             res = processNegotiationResponse cfg env now db negotiationId content
         in (enough \<longrightarrow> statusOf (snd res) negotiationId = Some ''accepted'')
          \<and> (\<not> enough \<and> of_nat roundNo < cfg_maxRounds cfg
               \<and> env_counterEmail env = Inr e \<and> env_transport env e = None \<longrightarrow>
                 fst res = Inr (RespCounterSent (roundNo + 1))
                 \<and> sentEmails (snd res) = sentEmails db @ [e]
                 \<and> negotiationMessages (snd res) =
                     negotiationMessages db @ [inboundMessage negotiationId content,
                                               outboundMessage negotiationId e now]
                 \<and> statusOf (snd res) negotiationId = Some ''in_progress'')
          \<and> (\<not> enough \<and> of_nat roundNo < cfg_maxRounds cfg
               \<and> \<not> (\<exists>e'. env_counterEmail env = Inr e' \<and> env_transport env e' = None) \<longrightarrow>
                 (\<exists>err. fst res = Inl err)
                 \<and> sentEmails (snd res) = sentEmails db
                 \<and> statusOf (snd res) negotiationId = Some ''in_progress'')
          \<and> (\<not> enough \<and> \<not> of_nat roundNo < cfg_maxRounds cfg \<longrightarrow>
                 fst res = Inr RespNoAgreement
                 \<and> statusOf (snd res) negotiationId = Some ''expired'')"
proof -
  let ?enough = "jge (savingsPercent co (neg_products negotiation)) (acceptanceThreshold (5 / 100))"
  let ?k = "roundNumber (messagesOf db negotiationId)"
  let ?res = "processNegotiationResponse cfg env now db negotiationId content"
  let ?db1 = "createMessage (inboundMessage negotiationId content) db"
  let ?ev = "evaluateCounterOffer co (neg_products negotiation) (cfg_targetImprovement cfg)"
  have idn: "neg_id negotiation = negotiationId" by (rule found_id [OF found])
  have f1: "find (\<lambda>n. neg_id n = neg_id negotiation) (negotiations ?db1) = Some negotiation"
    using found idn by simp
  have acc: "acceptable ?ev = ?enough"
    by (simp add: acceptable_iff target)
  note eq = processNegotiationResponse_counter [OF found cls counter, of cfg now content]
  have st1: "statusOf ?db1 negotiationId = Some ''in_progress''"
    using found inprog by (simp add: statusOf_def)
  have a: "statusOf (snd ?res) negotiationId = Some ''accepted''" if "?enough"
  proof (cases "of_nat ?k < cfg_maxRounds cfg")
    case True
    with that acc respondToCounter_accept [OF f1, of co cfg env now ?k] show ?thesis
      by (simp add: eq idn)
  next
    case False
    with that acc finalDecisionStep_status(1) [OF f1, of cfg now "Some co"] show ?thesis
      by (simp add: eq idn)
  qed
  have b: "fst ?res = Inr (RespCounterSent (?k + 1))
           \<and> sentEmails (snd ?res) = sentEmails db @ [e]
           \<and> negotiationMessages (snd ?res) =
               negotiationMessages db @ [inboundMessage negotiationId content,
                                         outboundMessage negotiationId e now]
           \<and> statusOf (snd ?res) negotiationId = Some ''in_progress''"
    if "\<not> ?enough" and k: "of_nat ?k < cfg_maxRounds cfg"
      and gen: "env_counterEmail env = Inr e" and sent: "env_transport env e = None"
  proof -
    from that acc have nacc: "\<not> acceptable ?ev" by simp
    from respondToCounter_counter [OF f1 nacc gen sent, of now ?k]
         messages_snd_respondToCounter [OF gen sent nacc, of now ?db1 ?k]
    show ?thesis
      using k by (simp add: eq idn inprog createMessage_def)
  qed
  have c: "(\<exists>err. fst ?res = Inl err) \<and> sentEmails (snd ?res) = sentEmails db
           \<and> statusOf (snd ?res) negotiationId = Some ''in_progress''"
    if "\<not> ?enough" and k: "of_nat ?k < cfg_maxRounds cfg"
      and fail: "\<not> (\<exists>e'. env_counterEmail env = Inr e' \<and> env_transport env e' = None)"
  proof -
    from that acc have nacc: "\<not> acceptable ?ev" by simp
    from respondToCounter_failure [OF nacc fail, of now ?db1 ?k]
    obtain err where "respondToCounter cfg env now ?db1 negotiation co ?k = (Inl err, ?db1)"
      by blast
    with k st1 show ?thesis by (simp add: eq createMessage_def)
  qed
  have d: "fst ?res = Inr RespNoAgreement \<and> statusOf (snd ?res) negotiationId = Some ''expired''"
    if "\<not> ?enough" and k: "\<not> of_nat ?k < cfg_maxRounds cfg"
  proof -
    from that acc have nacc: "\<not> acceptable ?ev" by simp
    with k finalDecisionStep_status [OF f1, of cfg now "Some co"] show ?thesis
      by (simp add: eq idn Let_def)
  qed
  from a b c d show ?thesis unfolding Let_def by blast
qed

text \<open>
  Counter-offers at 9.70 and at 9.90 against the price 10, in round 2 and in round 3 of 3.
\<close>

theorem counterOffer_half_target_witness:
  "statusOf (snd (processNegotiationResponse defaultDiplomatConfig
                    (replyEnv (Parsed (counterReply (97 / 10)))) 5
                    (negotiationStore ''in_progress'' 1) ''neg-1'' ''We can offer 9.70.''))
      ''neg-1'' = Some ''accepted''
   \<and> fst (processNegotiationResponse defaultDiplomatConfig
                    (replyEnv (Parsed (counterReply (99 / 10)))) 5
                    (negotiationStore ''in_progress'' 1) ''neg-1'' ''We can offer 9.90.'')
       = Inr (RespCounterSent 3)
   \<and> statusOf (snd (processNegotiationResponse defaultDiplomatConfig
                    (replyEnv (Parsed (counterReply (99 / 10)))) 5
                    (negotiationStore ''in_progress'' 2) ''neg-1'' ''We can offer 9.90.''))
      ''neg-1'' = Some ''expired''"
proof -
  have inprog: "neg_status (exampleNegotiation ''in_progress'') = ''in_progress''"
    by (simp add: exampleNegotiation_def)
  have target: "cfg_targetImprovement defaultDiplomatConfig = 5 / 100"
    by (simp add: defaultDiplomatConfig_def)
  have r1: "of_nat (roundNumber (messagesOf (negotiationStore ''in_progress'' 1) ''neg-1''))
              < cfg_maxRounds defaultDiplomatConfig"
    by (simp add: example_round defaultDiplomatConfig_def)
  have r2: "\<not> of_nat (roundNumber (messagesOf (negotiationStore ''in_progress'' 2) ''neg-1''))
              < cfg_maxRounds defaultDiplomatConfig"
    by (simp add: example_round defaultDiplomatConfig_def)
  note t1 = counterOffer_half_target
      [where negotiationId = "''neg-1''" and db = "negotiationStore ''in_progress'' 1"
         and negotiation = "exampleNegotiation ''in_progress''" and cfg = defaultDiplomatConfig
         and env = "replyEnv (Parsed (counterReply (97 / 10)))" and r = "counterReply (97 / 10)"
         and co = "counterAt (97 / 10)" and e = exampleEmail and now = 5
         and content = "''We can offer 9.70.''",
       OF example_negotiation_found inprog target example_cls example_counter,
       unfolded Let_def]
  note t2 = counterOffer_half_target
      [where negotiationId = "''neg-1''" and db = "negotiationStore ''in_progress'' 1"
         and negotiation = "exampleNegotiation ''in_progress''" and cfg = defaultDiplomatConfig
         and env = "replyEnv (Parsed (counterReply (99 / 10)))" and r = "counterReply (99 / 10)"
         and co = "counterAt (99 / 10)" and e = exampleEmail and now = 5
         and content = "''We can offer 9.90.''",
       OF example_negotiation_found inprog target example_cls example_counter,
       unfolded Let_def]
  note t3 = counterOffer_half_target
      [where negotiationId = "''neg-1''" and db = "negotiationStore ''in_progress'' 2"
         and negotiation = "exampleNegotiation ''in_progress''" and cfg = defaultDiplomatConfig
         and env = "replyEnv (Parsed (counterReply (99 / 10)))" and r = "counterReply (99 / 10)"
         and co = "counterAt (99 / 10)" and e = exampleEmail and now = 5
         and content = "''We can offer 9.90.''",
       OF example_negotiation_found inprog target example_cls example_counter,
       unfolded Let_def]
  have a: "statusOf (snd (processNegotiationResponse defaultDiplomatConfig
                    (replyEnv (Parsed (counterReply (97 / 10)))) 5
                    (negotiationStore ''in_progress'' 1) ''neg-1'' ''We can offer 9.70.''))
      ''neg-1'' = Some ''accepted''"
    by (rule t1 [THEN conjunct1, THEN mp, OF example_accepts_97])
  have "fst (processNegotiationResponse defaultDiplomatConfig
                    (replyEnv (Parsed (counterReply (99 / 10)))) 5
                    (negotiationStore ''in_progress'' 1) ''neg-1'' ''We can offer 9.90.'')
       = Inr (RespCounterSent
                (roundNumber (messagesOf (negotiationStore ''in_progress'' 1) ''neg-1'') + 1))"
    using example_refuses_99 [of "''in_progress''"] r1 example_env
      t2 [THEN conjunct2, THEN conjunct1]
    by blast
  then have b: "fst (processNegotiationResponse defaultDiplomatConfig
                    (replyEnv (Parsed (counterReply (99 / 10)))) 5
                    (negotiationStore ''in_progress'' 1) ''neg-1'' ''We can offer 9.90.'')
       = Inr (RespCounterSent 3)"
    by (simp add: example_round)
  have c: "statusOf (snd (processNegotiationResponse defaultDiplomatConfig
                    (replyEnv (Parsed (counterReply (99 / 10)))) 5
                    (negotiationStore ''in_progress'' 2) ''neg-1'' ''We can offer 9.90.''))
      ''neg-1'' = Some ''expired''"
    using example_refuses_99 [of "''in_progress''"] r2
      t3 [THEN conjunct2, THEN conjunct2, THEN conjunct2]
    by blast
  from a b c show ?thesis by blast
qed

text \<open>
  Claim C2 as stated fails twice. One unit at 2.80 countered at 2.73 saves exactly 2.5 per
  cent of the original total, yet in round 2 of 3 the code sends a counter-email and the
  negotiation is not accepted. And for a counter-offer below 2.5 per cent in round 2 of 3,
  when the mail transport refuses the connection the call returns the error, no
  counter-email is sent, and the negotiation is not expired either.
\<close>

theorem counterOffer_boundary_and_transport_counterexample:
  "spec_actualSavings (counterAt (273 / 100)) (neg_products boundaryNegotiation)
     / spec_originalTotal (neg_products boundaryNegotiation) = 25 / 1000
   \<and> fst (processNegotiationResponse defaultDiplomatConfig
            (replyEnv (Parsed (counterReply (273 / 100)))) 5 boundaryStore ''neg-2''
            ''We can offer 2.73.'') = Inr (RespCounterSent 3)
   \<and> statusOf (snd (processNegotiationResponse defaultDiplomatConfig
            (replyEnv (Parsed (counterReply (273 / 100)))) 5 boundaryStore ''neg-2''
            ''We can offer 2.73.'')) ''neg-2'' = Some ''in_progress''
   \<and> roundNumber (messagesOf (negotiationStore ''in_progress'' 1) ''neg-1'') = 2
   \<and> cfg_maxRounds defaultDiplomatConfig = 3
   \<and> fst (processNegotiationResponse defaultDiplomatConfig
            (refusingEnv (Parsed (counterReply (99 / 10)))) 5
            (negotiationStore ''in_progress'' 1) ''neg-1'' ''We can offer 9.90.'')
       = Inl ''connect ECONNREFUSED''
   \<and> sentEmails (snd (processNegotiationResponse defaultDiplomatConfig
            (refusingEnv (Parsed (counterReply (99 / 10)))) 5
            (negotiationStore ''in_progress'' 1) ''neg-1'' ''We can offer 9.90.'')) = []
   \<and> statusOf (snd (processNegotiationResponse defaultDiplomatConfig
            (refusingEnv (Parsed (counterReply (99 / 10)))) 5
            (negotiationStore ''in_progress'' 1) ''neg-1'' ''We can offer 9.90.'')) ''neg-1''
       = Some ''in_progress''"
proof -
  let ?db1 = "createMessage (inboundMessage ''neg-2'' ''We can offer 2.73.'') boundaryStore"
  have bid: "neg_id boundaryNegotiation = ''neg-2''" and bst: "neg_status boundaryNegotiation = ''in_progress''"
    by (simp_all add: boundaryNegotiation_def)
  have f1: "find (\<lambda>n. neg_id n = neg_id boundaryNegotiation) (negotiations ?db1)
              = Some boundaryNegotiation"
    using boundary_found by (simp add: bid)
  have nacc: "\<not> acceptable (evaluateCounterOffer (counterAt (273 / 100))
                 (neg_products boundaryNegotiation) (cfg_targetImprovement defaultDiplomatConfig))"
    using boundary_refused by (simp add: acceptable_iff defaultDiplomatConfig_def)
  have eq1: "processNegotiationResponse defaultDiplomatConfig
            (replyEnv (Parsed (counterReply (273 / 100)))) 5 boundaryStore ''neg-2''
            ''We can offer 2.73.''
       = respondToCounter defaultDiplomatConfig (replyEnv (Parsed (counterReply (273 / 100)))) 5
           ?db1 boundaryNegotiation (counterAt (273 / 100)) 2"
    using processNegotiationResponse_counter
            [where cfg = defaultDiplomatConfig and now = 5 and content = "''We can offer 2.73.''",
             OF boundary_found example_cls example_counter]
    by (simp add: boundary_round defaultDiplomatConfig_def)
  note rc = respondToCounter_counter
      [where env = "replyEnv (Parsed (counterReply (273 / 100)))" and now = 5 and k = 2,
       OF f1 nacc example_env]
  have a: "fst (processNegotiationResponse defaultDiplomatConfig
            (replyEnv (Parsed (counterReply (273 / 100)))) 5 boundaryStore ''neg-2''
            ''We can offer 2.73.'') = Inr (RespCounterSent 3)"
    by (simp add: eq1 rc(1))
  have b: "statusOf (snd (processNegotiationResponse defaultDiplomatConfig
            (replyEnv (Parsed (counterReply (273 / 100)))) 5 boundaryStore ''neg-2''
            ''We can offer 2.73.'')) ''neg-2'' = Some ''in_progress''"
    using rc(2) by (simp add: eq1 bid bst)
  let ?db2 = "createMessage (inboundMessage ''neg-1'' ''We can offer 9.90.'')
                (negotiationStore ''in_progress'' 1)"
  have cls2: "env_classification (refusingEnv c) = c" for c
    by (simp add: refusingEnv_def replyEnv_def)
  have round2: "roundNumber (messagesOf (negotiationStore st (Suc 0)) ''neg-1'') = 2" for st
    using example_round [of st 1] by simp
  have eq2: "processNegotiationResponse defaultDiplomatConfig
            (refusingEnv (Parsed (counterReply (99 / 10)))) 5
            (negotiationStore ''in_progress'' 1) ''neg-1'' ''We can offer 9.90.''
       = respondToCounter defaultDiplomatConfig (refusingEnv (Parsed (counterReply (99 / 10)))) 5
           ?db2 (exampleNegotiation ''in_progress'') (counterAt (99 / 10)) 2"
    by (subst processNegotiationResponse_counter [OF example_negotiation_found cls2 example_counter])
       (simp add: round2 defaultDiplomatConfig_def)
  have r2: "respondToCounter defaultDiplomatConfig (refusingEnv (Parsed (counterReply (99 / 10)))) 5
           ?db2 (exampleNegotiation ''in_progress'') (counterAt (99 / 10)) 2
        = (Inl ''connect ECONNREFUSED'', ?db2)"
    using example_not_acceptable [of "''in_progress''"]
    by (simp add: respondToCounter_def Let_def sendEmail_def refusingEnv_def replyEnv_def)
  have c: "fst (processNegotiationResponse defaultDiplomatConfig
            (refusingEnv (Parsed (counterReply (99 / 10)))) 5
            (negotiationStore ''in_progress'' 1) ''neg-1'' ''We can offer 9.90.'')
       = Inl ''connect ECONNREFUSED''"
    unfolding eq2 r2 by simp
  have d: "sentEmails (snd (processNegotiationResponse defaultDiplomatConfig
            (refusingEnv (Parsed (counterReply (99 / 10)))) 5
            (negotiationStore ''in_progress'' 1) ''neg-1'' ''We can offer 9.90.'')) = []"
    unfolding eq2 r2 by (simp add: createMessage_def negotiationStore_def exampleStore_def)
  have e: "statusOf (snd (processNegotiationResponse defaultDiplomatConfig
            (refusingEnv (Parsed (counterReply (99 / 10)))) 5
            (negotiationStore ''in_progress'' 1) ''neg-1'' ''We can offer 9.90.'')) ''neg-1''
       = Some ''in_progress''"
    unfolding eq2 r2
    by (simp add: statusOf_def createMessage_def negotiationStore_def exampleStore_def
          exampleNegotiation_def)
  have m: "cfg_maxRounds defaultDiplomatConfig = 3"
    by (simp add: defaultDiplomatConfig_def)
  from boundary_exact_ratio a b example_round [of "''in_progress''" 1] m c d e
  show ?thesis by simp
qed

subsection \<open>Status values\<close>

text \<open>
  Claim C3, as the code has it. A negotiation created by \<^verbatim>\<open>initiateNegotiation\<close> has
  the status \<^verbatim>\<open>in_progress\<close>. \<^verbatim>\<open>processNegotiationResponse\<close> leaves the status of
  every negotiation as it is or sets it to one of \<^verbatim>\<open>accepted\<close>, \<^verbatim>\<open>rejected\<close>,
  \<^verbatim>\<open>expired\<close>, and it does so without reading the status stored before: a reply
  classified as a rejection sets an existing negotiation to \<^verbatim>\<open>rejected\<close> whatever its
  status was. The follow-up endpoint sets the addressed negotiation to \<^verbatim>\<open>in_progress\<close>
  whatever its status was and changes no other. The expiry pass of the runner sets to
  \<^verbatim>\<open>expired\<close> the negotiations that are \<^verbatim>\<open>in_progress\<close> and past their expiry
  date, and changes no other.
\<close>

theorem negotiation_status_writes:
  "(negotiations (snd (initiateNegotiation cfg env newId now db organizationId supplierId requested))
      = negotiations db
    \<or> (\<exists>n. negotiations (snd (initiateNegotiation cfg env newId now db organizationId supplierId requested))
              = negotiations db @ [n]
           \<and> neg_id n = newId \<and> neg_status n = ''in_progress''))
   \<and> list_all2 statusStep (negotiations db)
        (negotiations (snd (processNegotiationResponse cfg env now db negotiationId content)))
   \<and> (find (\<lambda>n. neg_id n = negotiationId) (negotiations db) \<noteq> None
        \<and> env_classification env = Parsed r \<and> \<not> js_accepted r \<and> js_rejected r \<longrightarrow>
      statusOf (snd (processNegotiationResponse cfg env now db negotiationId content)) negotiationId
        = Some ''rejected'')
   \<and> list_all2 (\<lambda>n n'. neg_id n' = neg_id n
                   \<and> neg_status n' = (if neg_id n = negotiationId then ''in_progress''
                                       else neg_status n))
        (negotiations db) (negotiations (sendFollowUp now db negotiationId message))
   \<and> list_all2 (\<lambda>n n'. neg_id n' = neg_id n
                   \<and> neg_status n' = (if neg_status n = ''in_progress'' \<and> neg_expiresAt n < now
                                       then ''expired'' else neg_status n))
        (negotiations db) (negotiations (expireStale now db))"
proof -
  have a: "negotiations (snd (initiateNegotiation cfg env newId now db organizationId supplierId requested))
      = negotiations db
    \<or> (\<exists>n. negotiations (snd (initiateNegotiation cfg env newId now db organizationId supplierId requested))
              = negotiations db @ [n]
           \<and> neg_id n = newId \<and> neg_status n = ''in_progress'')"
    by (auto simp: initiateNegotiation_def Let_def newNegotiation_def sendEmail_def
          split: option.splits sum.splits)
  have b: "statusOf (snd (processNegotiationResponse cfg env now db negotiationId content))
             negotiationId = Some ''rejected''"
    if "find (\<lambda>n. neg_id n = negotiationId) (negotiations db) \<noteq> None"
      and "env_classification env = Parsed r" and "\<not> js_accepted r" and "js_rejected r"
  proof -
    from that(1) obtain negotiation
      where "find (\<lambda>n. neg_id n = negotiationId) (negotiations db) = Some negotiation"
      by blast
    from processNegotiationResponse_rejected [OF this that(2) that(3) that(4)]
    show ?thesis .
  qed
  have c: "list_all2 (\<lambda>n n'. neg_id n' = neg_id n
                   \<and> neg_status n' = (if neg_id n = negotiationId then ''in_progress''
                                       else neg_status n))
        (negotiations db) (negotiations (sendFollowUp now db negotiationId message))"
    by (simp add: sendFollowUp_def negotiations_updateNegotiation list_all2_map2 list_all2_same)
  have d: "list_all2 (\<lambda>n n'. neg_id n' = neg_id n
                   \<and> neg_status n' = (if neg_status n = ''in_progress'' \<and> neg_expiresAt n < now
                                       then ''expired'' else neg_status n))
        (negotiations db) (negotiations (expireStale now db))"
    by (simp add: expireStale_def list_all2_map2 list_all2_same)
  from a processNegotiationResponse_statusStep b c d show ?thesis by blast
qed

text \<open>A rejecting reply to a negotiation stored as \<^verbatim>\<open>accepted\<close>.\<close>

theorem negotiation_status_writes_witness:
  "find (\<lambda>n. neg_id n = ''neg-1'') (negotiations (negotiationStore ''accepted'' 1)) \<noteq> None
   \<and> env_classification (replyEnv (Parsed rejectReply)) = Parsed rejectReply
   \<and> \<not> js_accepted rejectReply \<and> js_rejected rejectReply
   \<and> statusOf (snd (processNegotiationResponse defaultDiplomatConfig (replyEnv (Parsed rejectReply))
                    7 (negotiationStore ''accepted'' 1) ''neg-1'' ''No.'')) ''neg-1''
       = Some ''rejected''"
proof -
  have h: "find (\<lambda>n. neg_id n = ''neg-1'') (negotiations (negotiationStore ''accepted'' 1)) \<noteq> None
           \<and> env_classification (replyEnv (Parsed rejectReply)) = Parsed rejectReply
           \<and> \<not> js_accepted rejectReply \<and> js_rejected rejectReply"
    by (simp add: example_negotiation_found example_cls rejectReply_def)
  note t = negotiation_status_writes
      [where negotiationId = "''neg-1''" and db = "negotiationStore ''accepted'' 1"
         and env = "replyEnv (Parsed rejectReply)" and r = rejectReply
         and cfg = defaultDiplomatConfig and now = 7 and content = "''No.''",
       THEN conjunct2, THEN conjunct2, THEN conjunct1, THEN mp, OF h]
  from h t show ?thesis by blast
qed

text \<open>
  Claim C3 as stated fails: a negotiation stored as \<^verbatim>\<open>accepted\<close> is moved to
  \<^verbatim>\<open>rejected\<close> by a later rejecting reply, and back to \<^verbatim>\<open>in_progress\<close> by a
  follow-up message.
\<close>

theorem terminal_state_left_counterexample:
  "statusOf (negotiationStore ''accepted'' 1) ''neg-1'' = Some ''accepted''
   \<and> statusOf (snd (processNegotiationResponse defaultDiplomatConfig (replyEnv (Parsed rejectReply)) 5
                    (negotiationStore ''accepted'' 1) ''neg-1'' ''We cannot lower the price.''))
       ''neg-1'' = Some ''rejected''
   \<and> statusOf (sendFollowUp 6 (negotiationStore ''accepted'' 1) ''neg-1'' ''Any news?'') ''neg-1''
       = Some ''in_progress''"
  by (simp add: example_status)
     (simp add: processNegotiationResponse_def analyzeResponse_def replyEnv_def rejectReply_def
        sendFollowUp_def statusOf_def updateNegotiation_def createMessage_def
        negotiationStore_def exampleNegotiation_def Let_def)

subsection \<open>Round number\<close>

text \<open>
  Claim C4, as the code has it. The round number that decides between countering and the
  final decision is one more than the number of outbound messages stored for the
  negotiation: for a counter-offer that is not acceptable, with \<open>k\<close> outbound messages
  stored, a counter-email for round \<open>k + 2\<close> is sent when \<open>k + 1\<close> is below the maximum
  number of rounds, and the final decision is taken otherwise.
\<close>

theorem round_from_outbound_messages:
  assumes found: "find (\<lambda>n. neg_id n = negotiationId) (negotiations db) = Some negotiation"
    and cls: "env_classification env = Parsed r"
    and counter: "\<not> js_accepted r" "\<not> js_rejected r" "js_counterOffer r = Some co"
    and nacc: "\<not> acceptable (evaluateCounterOffer co (neg_products negotiation)
                               (cfg_targetImprovement cfg))"
    and gen: "env_counterEmail env = Inr e" and sent: "env_transport env e = None"
  shows "let outbound = length (filter (\<lambda>m. msg_direction m = ''outbound'')
                                  (messagesOf db negotiationId));
             res = processNegotiationResponse cfg env now db negotiationId content
         in roundNumber (messagesOf db negotiationId) = outbound + 1
          \<and> (of_nat (outbound + 1) < cfg_maxRounds cfg \<longrightarrow>
                fst res = Inr (RespCounterSent (outbound + 2)))
          \<and> (\<not> of_nat (outbound + 1) < cfg_maxRounds cfg \<longrightarrow>
                fst res = Inr RespNoAgreement)"
proof -
  let ?db1 = "createMessage (inboundMessage negotiationId content) db"
  have idn: "neg_id negotiation = negotiationId" by (rule found_id [OF found])
  have f1: "find (\<lambda>n. neg_id n = neg_id negotiation) (negotiations ?db1) = Some negotiation"
    using found idn by simp
  note eq = processNegotiationResponse_counter [OF found cls counter, of cfg now content]
  have rn: "roundNumber (messagesOf db negotiationId)
              = length (filter (\<lambda>m. msg_direction m = ''outbound'') (messagesOf db negotiationId)) + 1"
    by (simp add: roundNumber_def)
  show ?thesis
    using nacc respondToCounter_counter(1) [OF f1 nacc gen sent, of now]
      finalDecisionStep_status(2) [OF f1, of cfg now "Some co"]
    unfolding Let_def eq rn by simp
qed

text \<open>One outbound message stored: the reply is processed in round 2 of 3.\<close>

theorem round_from_outbound_messages_witness:
  "roundNumber (messagesOf (negotiationStore ''in_progress'' 1) ''neg-1'') = 2
   \<and> fst (processNegotiationResponse defaultDiplomatConfig
                    (replyEnv (Parsed (counterReply (99 / 10)))) 5
                    (negotiationStore ''in_progress'' 1) ''neg-1'' ''We can offer 9.90.'')
       = Inr (RespCounterSent 3)"
proof -
  note t = round_from_outbound_messages
      [where negotiationId = "''neg-1''" and db = "negotiationStore ''in_progress'' 1"
         and negotiation = "exampleNegotiation ''in_progress''" and cfg = defaultDiplomatConfig
         and env = "replyEnv (Parsed (counterReply (99 / 10)))" and r = "counterReply (99 / 10)"
         and co = "counterAt (99 / 10)" and e = exampleEmail and now = 5
         and content = "''We can offer 9.90.''",
       OF example_negotiation_found example_cls example_counter example_not_acceptable example_env,
       unfolded Let_def]
  have k: "length (filter (\<lambda>m. msg_direction m = ''outbound'')
             (messagesOf (negotiationStore ''in_progress'' 1) ''neg-1'')) = 1"
    using example_round [of "''in_progress''" 1] by (simp add: roundNumber_def)
  from t show ?thesis
    unfolding k by (simp add: defaultDiplomatConfig_def)
qed

text \<open>
  Claim C4 as stated fails: with two outbound messages stored and a maximum of 3 rounds
  the round number is 3, not 2, and the unacceptable counter-offer gets the final decision
  instead of a further counter-email.
\<close>

theorem round_equals_outbound_count_counterexample:
  "length (filter (\<lambda>m. msg_direction m = ''outbound'')
             (messagesOf (negotiationStore ''in_progress'' 2) ''neg-1'')) = 2
   \<and> roundNumber (messagesOf (negotiationStore ''in_progress'' 2) ''neg-1'') = 3
   \<and> cfg_maxRounds defaultDiplomatConfig = 3
   \<and> fst (processNegotiationResponse defaultDiplomatConfig
                    (replyEnv (Parsed (counterReply (99 / 10)))) 5
                    (negotiationStore ''in_progress'' 2) ''neg-1'' ''We can offer 9.90.'')
       = Inr RespNoAgreement"
proof -
  have k: "length (filter (\<lambda>m. msg_direction m = ''outbound'')
             (messagesOf (negotiationStore ''in_progress'' 2) ''neg-1'')) = 2"
    using example_round [of "''in_progress''" 2] by (simp add: roundNumber_def)
  have f: "find (\<lambda>n. neg_id n = neg_id (exampleNegotiation ''in_progress''))
             (negotiations (createMessage (inboundMessage ''neg-1'' ''We can offer 9.90.'')
                (negotiationStore ''in_progress'' 2))) = Some (exampleNegotiation ''in_progress'')"
    by (simp add: example_negotiation_found exampleNegotiation_def)
  from k example_not_acceptable [of "''in_progress''"]
    finalDecisionStep_status(2) [OF f, of defaultDiplomatConfig 5 "Some (counterAt (99 / 10))"]
  show ?thesis
    by (simp add: example_counter_eq example_round Let_def) (simp add: defaultDiplomatConfig_def)
qed

end
